theory Spec2Isabelle
  imports Complex_Main
begin

section \<open>Eigen values\<close>

text \<open>
  \<^verbatim>\<open>VectorXd\<close> and \<^verbatim>\<open>VectorXi\<close> are lists of coefficients. A \<^verbatim>\<open>MatrixXd\<close> carries
  its two dimensions beside its rows, so that a matrix with no rows still has a column
  count, as in Eigen. Coefficients are real numbers: rounding is outside this model.
\<close>

type_synonym VectorXd = "real list"

type_synonym VectorXi = "int list"

record MatrixXd =
  rows :: nat
  cols :: nat
  coeffs :: "real list list"

definition wf_MatrixXd :: "MatrixXd \<Rightarrow> bool" where
  "wf_MatrixXd A \<longleftrightarrow>
     length (coeffs A) = rows A \<and> list_all (\<lambda>r. length r = cols A) (coeffs A)"

text \<open>
  What stops a call: a failed \<^verbatim>\<open>assert\<close> (the file's own, or Eigen's on a size or an
  index), the use of a null pointer, or an exception thrown by a collaborator.
\<close>

datatype failure = AssertionFailed | NullDereference | Thrown string

definition dot :: "real list \<Rightarrow> real list \<Rightarrow> real" where
  "dot xs ys = sum_list (map2 (*) xs ys)"

text \<open>\<^verbatim>\<open>A * w\<close> for a matrix and a vector; Eigen asserts that the sizes agree.\<close>

definition times_vec :: "MatrixXd \<Rightarrow> VectorXd \<Rightarrow> failure + MatrixXd" where
  "times_vec A w =
     (if cols A \<noteq> length w then Inl AssertionFailed
      else Inr \<lparr>rows = rows A, cols = 1, coeffs = map (\<lambda>r. [dot r w]) (coeffs A)\<rparr>)"

text \<open>\<^verbatim>\<open>A.col(b).array() *= c\<close>.\<close>

definition scale_col :: "nat \<Rightarrow> real \<Rightarrow> MatrixXd \<Rightarrow> MatrixXd" where
  "scale_col b c A = A\<lparr>coeffs := map (\<lambda>r. r[b := r ! b * c]) (coeffs A)\<rparr>"

text \<open>\<^verbatim>\<open>A.rowwise().sum()\<close>, received by a \<^verbatim>\<open>MatrixXd\<close>.\<close>

definition rowwise_sum :: "MatrixXd \<Rightarrow> MatrixXd" where
  "rowwise_sum A = \<lparr>rows = rows A, cols = 1, coeffs = map (\<lambda>r. [sum_list r]) (coeffs A)\<rparr>"

text \<open>
  \<^verbatim>\<open>VectorXd v = M\<close> for a matrix-valued right-hand side: a \<^verbatim>\<open>VectorXd\<close> has one
  column at compile time, and Eigen asserts that the source has one column too.
\<close>

definition to_VectorXd :: "MatrixXd \<Rightarrow> failure + VectorXd" where
  "to_VectorXd M = (if cols M = 1 then Inr (concat (coeffs M)) else Inl AssertionFailed)"

section \<open>Collaborators of the file\<close>

text \<open>
  Modelled from the spec: \<^verbatim>\<open>BasisFunction::Cosine::activations\<close>, declared in
  \<^verbatim>\<open>BasisFunction.hpp\<close> and defined outside the file. The spec gives it as
  \<^verbatim>\<open>activations(periods: B x D, phase: B, inputs: N x D) -> N x B\<close> with
  \<^verbatim>\<open>activations[i,j] = cos(periods[j,:] . inputs[i,:] + phase[j])\<close>. Arguments whose
  sizes do not fit that signature are refused.
\<close>

definition activations :: "MatrixXd \<Rightarrow> VectorXd \<Rightarrow> MatrixXd \<Rightarrow> failure + MatrixXd" where
  "activations periods phase inputs =
     (if cols inputs \<noteq> cols periods \<or> length phase \<noteq> rows periods then Inl AssertionFailed
      else Inr \<lparr>rows = rows inputs, cols = rows periods,
                coeffs = map (\<lambda>x. map2 (\<lambda>p ph. cos (dot p x + ph)) (coeffs periods) phase)
                           (coeffs inputs)\<rparr>)"

record MetaParametersRRRFF =
  number_of_basis_functions :: int
  gamma :: real
  regularization :: real

record ModelParametersRRRFF =
  weights :: VectorXd
  cosines_periodes :: MatrixXd
  cosines_phase :: VectorXd

text \<open>
  Modelled from the spec: \<^verbatim>\<open>ModelParametersRRRFF::cosineActivations\<close>, the activation
  computation bound to the model's own periods and phase.
\<close>

definition cosineActivations :: "ModelParametersRRRFF \<Rightarrow> MatrixXd \<Rightarrow> failure + MatrixXd" where
  "cosineActivations model inputs =
     activations (cosines_periodes model) (cosines_phase model) inputs"

section \<open>The approximator and the objects it points to\<close>

text \<open>
  The base class keeps two pointers, \<^verbatim>\<open>meta_parameters_\<close> and \<^verbatim>\<open>model_parameters_\<close>; the
  objects they point to live in a store. The constructors of this class accept RRRFF
  parameters only, so the store holds those.
\<close>

type_synonym addr = nat

record heap =
  metas :: "addr \<rightharpoonup> MetaParametersRRRFF"
  models :: "addr \<rightharpoonup> ModelParametersRRRFF"
  next_addr :: addr

record FunctionApproximatorRRRFF =
  meta_parameters :: "addr option"
  model_parameters :: "addr option"

text \<open>
  Modelled from the spec: \<^verbatim>\<open>isTrained\<close>, \<^verbatim>\<open>getMetaParameters\<close> and
  \<^verbatim>\<open>getModelParameters\<close> of the base class. The model parameters are present iff the
  approximator is trained; a getter returns the pointer, and the reader below follows it.
\<close>

definition isTrained :: "FunctionApproximatorRRRFF \<Rightarrow> bool" where
  "isTrained this \<longleftrightarrow> model_parameters this \<noteq> None"

definition getMetaParameters :: "heap \<Rightarrow> FunctionApproximatorRRRFF \<Rightarrow> MetaParametersRRRFF option" where
  "getMetaParameters h this = (case meta_parameters this of None \<Rightarrow> None | Some a \<Rightarrow> metas h a)"

definition getModelParameters :: "heap \<Rightarrow> FunctionApproximatorRRRFF \<Rightarrow> ModelParametersRRRFF option" where
  "getModelParameters h this = (case model_parameters this of None \<Rightarrow> None | Some a \<Rightarrow> models h a)"

section \<open>predict\<close>

definition predict_warning :: string where
  "predict_warning =
     ''WARNING: You may not call FunctionApproximatorRRRFF::predict if you have not trained yet. Doing nothing.''"

text \<open>
  \<^verbatim>\<open>outputs\<close> is a reference parameter: the function returns its value after the call,
  with the lines written to \<^verbatim>\<open>cerr\<close>.
\<close>

definition predict ::
  "heap \<Rightarrow> FunctionApproximatorRRRFF \<Rightarrow> MatrixXd \<Rightarrow> MatrixXd \<Rightarrow> failure + (MatrixXd \<times> string list)" where
  "predict h this inputs outputs =
     (if \<not> isTrained this then Inr (outputs, [predict_warning])
      else case getModelParameters h this of
        None \<Rightarrow> Inl NullDereference
      | Some model \<Rightarrow>
          (case cosineActivations model inputs of
             Inl e \<Rightarrow> Inl e
           | Inr proj_inputs \<Rightarrow>
               (case times_vec proj_inputs (weights model) of
                  Inl e \<Rightarrow> Inl e
                | Inr product \<Rightarrow> Inr (product, []))))"

section \<open>saveGridData\<close>

datatype saved = SavedXi VectorXi | SavedXd MatrixXd

text \<open>
  The loop \<^verbatim>\<open>for (int b=0; b<activations_grid.cols(); b++)\<close>; \<^verbatim>\<open>weights(b)\<close> is an
  indexed read, which Eigen asserts to be in range.
\<close>

function weight_cols :: "nat \<Rightarrow> VectorXd \<Rightarrow> MatrixXd \<Rightarrow> failure + MatrixXd" where
  "weight_cols b w A =
     (if b < cols A
      then (if b < length w then weight_cols (Suc b) w (scale_col b (w ! b) A)
            else Inl AssertionFailed)
      else Inr A)"
  by pat_completeness auto
termination
  by (relation "measure (\<lambda>(b, w, A). cols A - b)") (auto simp: scale_col_def)

text \<open>
  \<^verbatim>\<open>saveMatrix\<close> (\<^verbatim>\<open>EigenFileIO.hpp\<close>) and \<^verbatim>\<open>generateInputsGrid\<close> (the base class) are
  defined outside the file and are parameters here: the writer takes the directory, the
  file name, the data, the overwrite flag and the file system, and either throws or
  returns its status with the file system it leaves. The five calls are statements: the
  status each returns is dropped.
\<close>

definition saveGridData ::
  "(string \<Rightarrow> string \<Rightarrow> saved \<Rightarrow> bool \<Rightarrow> 'fs \<Rightarrow> failure + (bool \<times> 'fs)) \<Rightarrow>
   (VectorXd \<Rightarrow> VectorXd \<Rightarrow> VectorXi \<Rightarrow> failure + MatrixXd) \<Rightarrow>
   heap \<Rightarrow> FunctionApproximatorRRRFF \<Rightarrow> VectorXd \<Rightarrow> VectorXd \<Rightarrow> VectorXi \<Rightarrow> string \<Rightarrow> bool \<Rightarrow>
   'fs \<Rightarrow> failure + (bool \<times> 'fs)" where
  "saveGridData write_matrix generateInputsGrid h this min_v max_v n_samples_per_dim
       save_directory overwrite fs =
     (if save_directory = [] then Inr (True, fs)
      else case generateInputsGrid min_v max_v n_samples_per_dim of
        Inl e \<Rightarrow> Inl e
      | Inr inputs_grid \<Rightarrow>
      (case getModelParameters h this of
        None \<Rightarrow> Inl NullDereference
      | Some model \<Rightarrow>
      (case cosineActivations model inputs_grid of
        Inl e \<Rightarrow> Inl e
      | Inr activations_grid \<Rightarrow>
      (case write_matrix save_directory ''n_samples_per_dim.txt'' (SavedXi n_samples_per_dim)
              overwrite fs of
        Inl e \<Rightarrow> Inl e
      | Inr (r1, fs1) \<Rightarrow>
      (case write_matrix save_directory ''inputs_grid.txt'' (SavedXd inputs_grid)
              overwrite fs1 of
        Inl e \<Rightarrow> Inl e
      | Inr (r2, fs2) \<Rightarrow>
      (case write_matrix save_directory ''activations_grid.txt'' (SavedXd activations_grid)
              overwrite fs2 of
        Inl e \<Rightarrow> Inl e
      | Inr (r3, fs3) \<Rightarrow>
      (case weight_cols 0 (weights model) activations_grid of
        Inl e \<Rightarrow> Inl e
      | Inr weighted \<Rightarrow>
      (case write_matrix save_directory ''activations_weighted_grid.txt'' (SavedXd weighted)
              overwrite fs3 of
        Inl e \<Rightarrow> Inl e
      | Inr (r4, fs4) \<Rightarrow>
      (case write_matrix save_directory ''predictions_grid.txt''
              (SavedXd (rowwise_sum weighted)) overwrite fs4 of
        Inl e \<Rightarrow> Inl e
      | Inr (r5, fs5) \<Rightarrow> Inr (True, fs5))))))))))"

text \<open>
  Modelled from the spec: \<^verbatim>\<open>saveMatrix\<close>, as the spec's words give it. Each artifact is
  one file of a directory; \<^verbatim>\<open>overwrite\<close> decides whether an existing file is clobbered
  or the write is refused, and a refused write is an operation failure: a non-true return
  and a report. The file system is the files by directory and name, and the reports made.
\<close>

record filesystem =
  files :: "string \<times> string \<rightharpoonup> saved"
  reported :: "(string \<times> string) list"

definition saveMatrix ::
  "string \<Rightarrow> string \<Rightarrow> saved \<Rightarrow> bool \<Rightarrow> filesystem \<Rightarrow> failure + (bool \<times> filesystem)" where
  "saveMatrix directory filename matrix overwrite fs =
     (if files fs (directory, filename) \<noteq> None \<and> \<not> overwrite
      then Inr (False, fs\<lparr>reported := reported fs @ [(directory, filename)]\<rparr>)
      else Inr (True, fs\<lparr>files := (files fs)((directory, filename) \<mapsto> matrix)\<rparr>))"

text \<open>What a call returned to its caller, when it returned.\<close>

definition returned :: "failure + ('a \<times> 'b) \<Rightarrow> 'a option" where
  "returned r = (case r of Inl e \<Rightarrow> None | Inr (v, s) \<Rightarrow> Some v)"

section \<open>train\<close>

definition train_warning :: "string list" where
  "train_warning =
     [''WARNING: You may not call FunctionApproximatorRRRFF::train more than once. Doing nothing.'',
      ''   (if you really want to retrain, call reTrain function instead)'']"

text \<open>
  The generator \<^verbatim>\<open>rng\<close> is a state that each draw advances. The inner loop over the
  columns of one row, and the loop over the rows.
\<close>

fun draw_row :: "('g \<Rightarrow> real \<times> 'g) \<Rightarrow> nat \<Rightarrow> 'g \<Rightarrow> real list \<times> 'g" where
  "draw_row gen 0 g = ([], g)"
| "draw_row gen (Suc n) g =
     (case gen g of (x, g1) \<Rightarrow> (case draw_row gen n g1 of (xs, g2) \<Rightarrow> (x # xs, g2)))"

fun draw_rows :: "('g \<Rightarrow> real \<times> 'g) \<Rightarrow> nat \<Rightarrow> nat \<Rightarrow> 'g \<Rightarrow> real list list \<times> 'g" where
  "draw_rows gen 0 c g = ([], g)"
| "draw_rows gen (Suc r) c g =
     (case draw_row gen c g of (row, g1) \<Rightarrow>
        (case draw_rows gen r c g1 of (rs, g2) \<Rightarrow> (row # rs, g2)))"

text \<open>
  Lines 87 to 103: the periods, each drawn from the normal distribution with mean 0 and
  standard deviation \<^verbatim>\<open>sqrt(2 * gamma_)\<close>, then the phases, each drawn uniformly from 0 to
  \<^verbatim>\<open>2 * pi\<close>, out of one generator. The two distributions and the seeded generator are
  parameters.
\<close>

definition draw_features ::
  "(real \<Rightarrow> real \<Rightarrow> 'g \<Rightarrow> real \<times> 'g) \<Rightarrow> (real \<Rightarrow> real \<Rightarrow> 'g \<Rightarrow> real \<times> 'g) \<Rightarrow> 'g \<Rightarrow>
   MetaParametersRRRFF \<Rightarrow> nat \<Rightarrow> MatrixXd \<times> VectorXd" where
  "draw_features normal_distribution uniform_real rng meta n_dims =
     (let nb_cos = nat (number_of_basis_functions meta) in
      case draw_rows (normal_distribution 0 (sqrt (2 * gamma meta))) nb_cos n_dims rng of
        (periodes, rng1) \<Rightarrow>
          (case draw_row (uniform_real 0 (2 * pi)) nb_cos rng1 of
             (phase, rng2) \<Rightarrow> (\<lparr>rows = nb_cos, cols = n_dims, coeffs = periodes\<rparr>, phase)))"

text \<open>
  Modelled from the spec: \<^verbatim>\<open>new ModelParametersRRRFF(...)\<close> and the base class's
  \<^verbatim>\<open>setModelParameters\<close>, which installs a new model in place of any prior one: the
  approximator owns its model, so the prior object is destroyed.
\<close>

definition new_ModelParametersRRRFF :: "heap \<Rightarrow> ModelParametersRRRFF \<Rightarrow> addr \<times> heap" where
  "new_ModelParametersRRRFF h model =
     (next_addr h, h\<lparr>models := (models h)(next_addr h \<mapsto> model), next_addr := Suc (next_addr h)\<rparr>)"

definition setModelParameters ::
  "heap \<Rightarrow> FunctionApproximatorRRRFF \<Rightarrow> addr \<Rightarrow> FunctionApproximatorRRRFF \<times> heap" where
  "setModelParameters h this p =
     (this\<lparr>model_parameters := Some p\<rparr>,
      (case model_parameters this of
         None \<Rightarrow> h
       | Some old \<Rightarrow> h\<lparr>models := (models h)(old := None)\<rparr>))"

text \<open>Line 113: \<^verbatim>\<open>setModelParameters(new ModelParametersRRRFF(...))\<close>.\<close>

definition install ::
  "heap \<Rightarrow> FunctionApproximatorRRRFF \<Rightarrow> ModelParametersRRRFF \<Rightarrow> FunctionApproximatorRRRFF \<times> heap" where
  "install h this model =
     (case new_ModelParametersRRRFF h model of (p, h1) \<Rightarrow> setModelParameters h1 this p)"

text \<open>
  \<^verbatim>\<open>leastSquares\<close> (\<^verbatim>\<open>leastSquares.hpp\<close>) is a parameter: it takes the projected inputs,
  the targets, \<^verbatim>\<open>use_offset\<close> and the regularization, and returns a matrix or fails. So is
  the value of \<^verbatim>\<open>getExpectedInputDim()\<close>, fixed when the approximator was constructed.
  The result of the solver is received by a \<^verbatim>\<open>VectorXd\<close>. A negative row count is refused
  by Eigen's matrix constructor.
\<close>

definition train ::
  "(real \<Rightarrow> real \<Rightarrow> 'g \<Rightarrow> real \<times> 'g) \<Rightarrow> (real \<Rightarrow> real \<Rightarrow> 'g \<Rightarrow> real \<times> 'g) \<Rightarrow>
   (MatrixXd \<Rightarrow> MatrixXd \<Rightarrow> bool \<Rightarrow> real \<Rightarrow> failure + MatrixXd) \<Rightarrow> nat \<Rightarrow> 'g \<Rightarrow>
   heap \<Rightarrow> FunctionApproximatorRRRFF \<Rightarrow> MatrixXd \<Rightarrow> MatrixXd \<Rightarrow>
   failure + (FunctionApproximatorRRRFF \<times> heap \<times> string list)" where
  "train normal_distribution uniform_real leastSquares expected_input_dim rng h this
       inputs targets =
     (if isTrained this then Inr (this, h, train_warning)
      else if rows inputs \<noteq> rows targets then Inl AssertionFailed
      else if cols inputs \<noteq> expected_input_dim then Inl AssertionFailed
      else case getMetaParameters h this of
        None \<Rightarrow> Inl NullDereference
      | Some meta \<Rightarrow>
          if number_of_basis_functions meta < 0 then Inl AssertionFailed
          else
            (case draw_features normal_distribution uniform_real rng meta (cols inputs) of
               (periodes, phase) \<Rightarrow>
            (case activations periodes phase inputs of
               Inl e \<Rightarrow> Inl e
             | Inr proj_inputs \<Rightarrow>
            (case leastSquares proj_inputs targets False (regularization meta) of
               Inl e \<Rightarrow> Inl e
             | Inr solution \<Rightarrow>
            (case to_VectorXd solution of
               Inl e \<Rightarrow> Inl e
             | Inr linear_model \<Rightarrow>
            (case install h this
                    \<lparr>weights = linear_model, cosines_periodes = periodes,
                     cosines_phase = phase\<rparr> of
               (this1, h1) \<Rightarrow> Inr (this1, h1, [])))))))"

section \<open>clone\<close>

text \<open>
  Modelled from the spec: the constructor of the base class, to which \<^verbatim>\<open>clone\<close> leaves
  all cloning. It duplicates both held parameter objects by value: each pointer that is
  not null gets a fresh object holding a copy of what it points to.
\<close>

definition clone_MetaParameters :: "heap \<Rightarrow> addr option \<Rightarrow> failure + (addr option \<times> heap)" where
  "clone_MetaParameters h p =
     (case p of
        None \<Rightarrow> Inr (None, h)
      | Some a \<Rightarrow>
          (case metas h a of
             None \<Rightarrow> Inl NullDereference
           | Some v \<Rightarrow>
               Inr (Some (next_addr h),
                    h\<lparr>metas := (metas h)(next_addr h \<mapsto> v), next_addr := Suc (next_addr h)\<rparr>)))"

definition clone_ModelParameters :: "heap \<Rightarrow> addr option \<Rightarrow> failure + (addr option \<times> heap)" where
  "clone_ModelParameters h p =
     (case p of
        None \<Rightarrow> Inr (None, h)
      | Some a \<Rightarrow>
          (case models h a of
             None \<Rightarrow> Inl NullDereference
           | Some v \<Rightarrow>
               Inr (Some (next_addr h),
                    h\<lparr>models := (models h)(next_addr h \<mapsto> v), next_addr := Suc (next_addr h)\<rparr>)))"

definition new_FunctionApproximatorRRRFF ::
  "heap \<Rightarrow> addr option \<Rightarrow> addr option \<Rightarrow> failure + (FunctionApproximatorRRRFF \<times> heap)" where
  "new_FunctionApproximatorRRRFF h meta model =
     (case clone_MetaParameters h meta of
        Inl e \<Rightarrow> Inl e
      | Inr (meta1, h1) \<Rightarrow>
          (case clone_ModelParameters h1 model of
             Inl e \<Rightarrow> Inl e
           | Inr (model1, h2) \<Rightarrow>
               Inr (\<lparr>meta_parameters = meta1, model_parameters = model1\<rparr>, h2)))"

text \<open>
  The two \<^verbatim>\<open>dynamic_cast\<close>s keep a pointer to an RRRFF object and a null pointer as
  they are; the store holds no object of another kind.
\<close>

definition clone :: "heap \<Rightarrow> FunctionApproximatorRRRFF \<Rightarrow> failure + (FunctionApproximatorRRRFF \<times> heap)" where
  "clone h this = new_FunctionApproximatorRRRFF h (meta_parameters this) (model_parameters this)"

text \<open>
  Every object of the store lies below the allocation mark, and so do the pointers of an
  approximator, which point to objects.
\<close>

definition heap_ok :: "heap \<Rightarrow> bool" where
  "heap_ok h \<longleftrightarrow>
     (\<forall>a. a \<in> dom (metas h) \<longrightarrow> a < next_addr h) \<and> (\<forall>a. a \<in> dom (models h) \<longrightarrow> a < next_addr h)"

definition points_ok :: "heap \<Rightarrow> FunctionApproximatorRRRFF \<Rightarrow> bool" where
  "points_ok h this \<longleftrightarrow>
     (case meta_parameters this of None \<Rightarrow> True | Some a \<Rightarrow> metas h a \<noteq> None) \<and>
     (case model_parameters this of None \<Rightarrow> True | Some a \<Rightarrow> models h a \<noteq> None)"

text \<open>
  The invariant the spec gives for the model parameters: as many weights as periods rows
  as phases, the periods being a matrix of the sizes it carries.
\<close>

definition model_ok :: "ModelParametersRRRFF \<Rightarrow> bool" where
  "model_ok model \<longleftrightarrow>
     wf_MatrixXd (cosines_periodes model) \<and>
     length (cosines_phase model) = rows (cosines_periodes model) \<and>
     length (weights model) = rows (cosines_periodes model)"

text \<open>
  An approximator in one store is in the state of another in another store, and predicts
  alike on the given inputs: both are trained or neither, and they read equal
  meta-parameters and equal model parameters.
\<close>

definition same_view ::
  "MatrixXd \<Rightarrow> MatrixXd \<Rightarrow> heap \<Rightarrow> FunctionApproximatorRRRFF \<Rightarrow> heap \<Rightarrow> FunctionApproximatorRRRFF \<Rightarrow> bool" where
  "same_view inputs outputs h1 t1 h2 t2 \<longleftrightarrow>
     isTrained t1 = isTrained t2 \<and>
     getMetaParameters h1 t1 = getMetaParameters h2 t2 \<and>
     getModelParameters h1 t1 = getModelParameters h2 t2 \<and>
     predict h1 t1 inputs outputs = predict h2 t2 inputs outputs"

section \<open>Concrete approximators, collaborators and files\<close>

text \<open>
  A trained approximator with two basis functions of one input dimension, and an
  untrained one whose meta-parameters ask for two basis functions; a grid generator that
  returns the two points 0 and 1; a generator whose every draw is 0; a solver for targets
  that are all zero, where the minimiser of the regularized problem is the zero matrix;
  and a file system in which one of the five files exists already.
\<close>

definition trained_model :: ModelParametersRRRFF where
  "trained_model =
     \<lparr>weights = [3, 2],
      cosines_periodes = \<lparr>rows = 2, cols = 1, coeffs = [[0], [1]]\<rparr>,
      cosines_phase = [0, 0]\<rparr>"

definition trained_heap :: heap where
  "trained_heap = \<lparr>metas = Map.empty, models = [0 \<mapsto> trained_model], next_addr = 1\<rparr>"

definition trained_approximator :: FunctionApproximatorRRRFF where
  "trained_approximator = \<lparr>meta_parameters = None, model_parameters = Some 0\<rparr>"

definition untrained_heap :: heap where
  "untrained_heap =
     \<lparr>metas = [0 \<mapsto> \<lparr>number_of_basis_functions = 2, gamma = 1, regularization = 1\<rparr>],
      models = Map.empty, next_addr = 1\<rparr>"

definition untrained_approximator :: FunctionApproximatorRRRFF where
  "untrained_approximator = \<lparr>meta_parameters = Some 0, model_parameters = None\<rparr>"

text \<open>An approximator that holds both meta-parameters and a model.\<close>

definition full_heap :: heap where
  "full_heap =
     \<lparr>metas = [0 \<mapsto> \<lparr>number_of_basis_functions = 2, gamma = 1, regularization = 1\<rparr>],
      models = [1 \<mapsto> trained_model], next_addr = 2\<rparr>"

definition full_approximator :: FunctionApproximatorRRRFF where
  "full_approximator = \<lparr>meta_parameters = Some 0, model_parameters = Some 1\<rparr>"

definition unit_grid :: "VectorXd \<Rightarrow> VectorXd \<Rightarrow> VectorXi \<Rightarrow> failure + MatrixXd" where
  "unit_grid min_v max_v n_samples_per_dim = Inr \<lparr>rows = 2, cols = 1, coeffs = [[0], [1]]\<rparr>"

definition draw_zero :: "real \<Rightarrow> real \<Rightarrow> unit \<Rightarrow> real \<times> unit" where
  "draw_zero a b g = (0, g)"

definition zero_solution :: "MatrixXd \<Rightarrow> MatrixXd \<Rightarrow> bool \<Rightarrow> real \<Rightarrow> failure + MatrixXd" where
  "zero_solution X Y use_offset lambda =
     Inr \<lparr>rows = cols X, cols = cols Y, coeffs = replicate (cols X) (replicate (cols Y) 0)\<rparr>"

definition stale_files :: filesystem where
  "stale_files = \<lparr>files = [(''out'', ''n_samples_per_dim.txt'') \<mapsto> SavedXi [7]], reported = []\<rparr>"

definition no_files :: filesystem where
  "no_files = \<lparr>files = Map.empty, reported = []\<rparr>"

definition two_points :: MatrixXd where
  "two_points = \<lparr>rows = 2, cols = 1, coeffs = [[0], [1]]\<rparr>"

section \<open>Facts about the loops and the collaborators\<close>

lemma draw_row_length: "length (fst (draw_row gen n g)) = n"
proof (induction n arbitrary: g)
  case 0
  show ?case by simp
next
  case (Suc n)
  obtain x g1 where a: "gen g = (x, g1)" by (cases "gen g")
  obtain xs g2 where b: "draw_row gen n g1 = (xs, g2)" by (cases "draw_row gen n g1")
  from Suc [of g1] a b show ?case by simp
qed

lemma draw_rows_length: "length (fst (draw_rows gen r c g)) = r"
proof (induction r arbitrary: g)
  case 0
  show ?case by simp
next
  case (Suc r)
  obtain row g1 where a: "draw_row gen c g = (row, g1)" by (cases "draw_row gen c g")
  obtain rs g2 where b: "draw_rows gen r c g1 = (rs, g2)" by (cases "draw_rows gen r c g1")
  from Suc [of g1] a b show ?case by simp
qed

lemma draw_rows_widths: "list_all (\<lambda>row. length row = c) (fst (draw_rows gen r c g))"
proof (induction r arbitrary: g)
  case 0
  show ?case by simp
next
  case (Suc r)
  obtain row g1 where a: "draw_row gen c g = (row, g1)" by (cases "draw_row gen c g")
  obtain rs g2 where b: "draw_rows gen r c g1 = (rs, g2)" by (cases "draw_rows gen r c g1")
  from draw_row_length [of gen c g] a have "length row = c" by simp
  moreover from Suc [of g1] b have "list_all (\<lambda>row. length row = c) rs" by simp
  ultimately show ?case using a b by simp
qed

lemma draw_features_sizes:
  assumes "draw_features normal_distribution uniform_real rng meta n_dims = (periodes, phase)"
  shows "rows periodes = nat (number_of_basis_functions meta)"
    and "cols periodes = n_dims"
    and "length phase = nat (number_of_basis_functions meta)"
    and "wf_MatrixXd periodes"
proof -
  let ?B = "nat (number_of_basis_functions meta)"
  let ?gen = "normal_distribution 0 (sqrt (2 * gamma meta))"
  obtain ps g1 where a: "draw_rows ?gen ?B n_dims rng = (ps, g1)"
    by (cases "draw_rows ?gen ?B n_dims rng")
  obtain ph g2 where b: "draw_row (uniform_real 0 (2 * pi)) ?B g1 = (ph, g2)"
    by (cases "draw_row (uniform_real 0 (2 * pi)) ?B g1")
  from assms a b have p: "periodes = \<lparr>rows = ?B, cols = n_dims, coeffs = ps\<rparr>" and q: "phase = ph"
    by (simp_all add: draw_features_def Let_def)
  from p show "rows periodes = ?B" and "cols periodes = n_dims" by simp_all
  from q b draw_row_length [of "uniform_real 0 (2 * pi)" ?B g1] show "length phase = ?B" by simp
  from p a draw_rows_length [of ?gen ?B n_dims rng] draw_rows_widths [of n_dims ?gen ?B rng]
  show "wf_MatrixXd periodes" by (simp add: wf_MatrixXd_def)
qed

lemma concat_singletons:
  "list_all (\<lambda>r. length r = Suc 0) xs \<Longrightarrow> concat xs = map (\<lambda>r. r ! 0) xs"
proof (induction xs)
  case Nil
  show ?case by simp
next
  case (Cons x xs)
  then obtain a where "x = [a]" by (cases x) auto
  with Cons show ?case by simp
qed

lemma saveMatrix_returns:
  "\<exists>r fs'. saveMatrix d f x ov fs = Inr (r, fs')"
  by (auto simp add: saveMatrix_def)


lemma saveMatrix_keeps:
  assumes "saveMatrix d f x ov fs = Inr (r, fs')" and "\<not> ov" and "files fs k \<noteq> None"
  shows "files fs' k = files fs k"
  using assms by (auto simp add: saveMatrix_def split: if_splits)

lemma saveMatrix_reports:
  assumes "saveMatrix d f x ov fs = Inr (r, fs')"
  shows "set (reported fs) \<subseteq> set (reported fs')"
    and "\<not> ov \<Longrightarrow> files fs (d, f) \<noteq> None \<Longrightarrow> \<not> r \<and> (d, f) \<in> set (reported fs')"
  using assms by (auto simp add: saveMatrix_def split: if_splits)

lemma weight_cols_failure: "weight_cols b w A = Inl e \<Longrightarrow> e = AssertionFailed"
proof (induction b w A rule: weight_cols.induct)
  case (1 b w A)
  then show ?case
    by (simp split: if_splits)
qed

lemma activations_failure: "activations P ph X = Inl e \<Longrightarrow> e = AssertionFailed"
  by (simp add: activations_def split: if_splits)


lemma saveGridData_saveMatrix:
  assumes "save_directory \<noteq> []"
      and "generateInputsGrid min_v max_v n_samples_per_dim = Inr inputs_grid"
      and "getModelParameters h this = Some model"
      and "cosineActivations model inputs_grid = Inr activations_grid"
      and "weight_cols 0 (weights model) activations_grid = Inr weighted"
  shows "\<exists>r1 fs1 r2 fs2 r3 fs3 r4 fs4 r5 fs5.
           saveMatrix save_directory ''n_samples_per_dim.txt'' (SavedXi n_samples_per_dim)
             overwrite fs = Inr (r1, fs1) \<and>
           saveMatrix save_directory ''inputs_grid.txt'' (SavedXd inputs_grid)
             overwrite fs1 = Inr (r2, fs2) \<and>
           saveMatrix save_directory ''activations_grid.txt'' (SavedXd activations_grid)
             overwrite fs2 = Inr (r3, fs3) \<and>
           saveMatrix save_directory ''activations_weighted_grid.txt'' (SavedXd weighted)
             overwrite fs3 = Inr (r4, fs4) \<and>
           saveMatrix save_directory ''predictions_grid.txt'' (SavedXd (rowwise_sum weighted))
             overwrite fs4 = Inr (r5, fs5) \<and>
           saveGridData saveMatrix generateInputsGrid h this min_v max_v n_samples_per_dim
             save_directory overwrite fs = Inr (True, fs5)"
proof -
  obtain r1 fs1 where w1:
    "saveMatrix save_directory ''n_samples_per_dim.txt'' (SavedXi n_samples_per_dim) overwrite fs
       = Inr (r1, fs1)"
    using saveMatrix_returns by blast
  obtain r2 fs2 where w2:
    "saveMatrix save_directory ''inputs_grid.txt'' (SavedXd inputs_grid) overwrite fs1 = Inr (r2, fs2)"
    using saveMatrix_returns by blast
  obtain r3 fs3 where w3:
    "saveMatrix save_directory ''activations_grid.txt'' (SavedXd activations_grid) overwrite fs2
       = Inr (r3, fs3)"
    using saveMatrix_returns by blast
  obtain r4 fs4 where w4:
    "saveMatrix save_directory ''activations_weighted_grid.txt'' (SavedXd weighted) overwrite fs3
       = Inr (r4, fs4)"
    using saveMatrix_returns by blast
  obtain r5 fs5 where w5:
    "saveMatrix save_directory ''predictions_grid.txt'' (SavedXd (rowwise_sum weighted)) overwrite fs4
       = Inr (r5, fs5)"
    using saveMatrix_returns by blast
  have "saveGridData saveMatrix generateInputsGrid h this min_v max_v
          n_samples_per_dim save_directory overwrite fs = Inr (True, fs5)"
    using assms w1 w2 w3 w4 w5 by (simp add: saveGridData_def)
  with w1 w2 w3 w4 w5 show ?thesis by blast
qed

lemma dot_sum:
  assumes "length xs = length ys"
  shows "dot xs ys = (\<Sum>d<length xs. xs ! d * ys ! d)"
proof -
  have "dot xs ys = (\<Sum>d = 0..<length (map2 (*) xs ys). map2 (*) xs ys ! d)"
    unfolding dot_def by (rule sum_list_sum_nth)
  also have "\<dots> = (\<Sum>d = 0..<length xs. xs ! d * ys ! d)"
    using assms by (intro sum.cong) simp_all
  finally show ?thesis by (simp add: atLeast0LessThan)
qed

lemma wf_row:
  "wf_MatrixXd A \<Longrightarrow> i < rows A \<Longrightarrow> length (coeffs A ! i) = cols A"
  by (simp add: wf_MatrixXd_def list_all_length)

lemma activations_value:
  assumes "cols inputs = cols periods" and "length phase = rows periods"
  shows "activations periods phase inputs =
           Inr \<lparr>rows = rows inputs, cols = rows periods,
                coeffs = map (\<lambda>x. map2 (\<lambda>p ph. cos (dot p x + ph)) (coeffs periods) phase)
                           (coeffs inputs)\<rparr>"
  using assms by (simp add: activations_def)

lemma activations_entry:
  assumes "wf_MatrixXd periods" and "wf_MatrixXd inputs"
      and "cols inputs = cols periods" and "length phase = rows periods"
      and "i < rows inputs" and "j < rows periods"
  shows "map (\<lambda>x. map2 (\<lambda>p ph. cos (dot p x + ph)) (coeffs periods) phase) (coeffs inputs) ! i ! j
         = cos ((\<Sum>d<cols periods. coeffs periods ! j ! d * coeffs inputs ! i ! d) + phase ! j)"
proof -
  have li: "length (coeffs inputs) = rows inputs" and lp: "length (coeffs periods) = rows periods"
    using assms by (simp_all add: wf_MatrixXd_def)
  have ri: "length (coeffs inputs ! i) = cols periods"
    using wf_row [OF assms(2) assms(5)] assms(3) by simp
  have rp: "length (coeffs periods ! j) = cols periods"
    using wf_row [OF assms(1) assms(6)] by simp
  have "dot (coeffs periods ! j) (coeffs inputs ! i)
          = (\<Sum>d<cols periods. coeffs periods ! j ! d * coeffs inputs ! i ! d)"
    using dot_sum [of "coeffs periods ! j" "coeffs inputs ! i"] ri rp by simp
  then show ?thesis
    using assms li lp by simp
qed

lemma activations_wf:
  assumes "wf_MatrixXd periods" and "wf_MatrixXd inputs"
      and "cols inputs = cols periods" and "length phase = rows periods"
  shows "wf_MatrixXd \<lparr>rows = rows inputs, cols = rows periods,
                coeffs = map (\<lambda>x. map2 (\<lambda>p ph. cos (dot p x + ph)) (coeffs periods) phase)
                           (coeffs inputs)\<rparr>"
  using assms by (simp add: wf_MatrixXd_def list_all_length)

lemma times_vec_entry:
  assumes "wf_MatrixXd A" and "length w = cols A" and "i < rows A"
  shows "map (\<lambda>r. [dot r w]) (coeffs A) ! i = [\<Sum>j<cols A. coeffs A ! i ! j * w ! j]"
proof -
  have "length (coeffs A) = rows A" using assms by (simp add: wf_MatrixXd_def)
  moreover have "dot (coeffs A ! i) w = (\<Sum>j<cols A. coeffs A ! i ! j * w ! j)"
    using dot_sum [of "coeffs A ! i" w] wf_row [OF assms(1,3)] assms(2) by simp
  ultimately show ?thesis using assms by simp
qed

lemma scale_col_parts [simp]:
  "rows (scale_col b c A) = rows A" "cols (scale_col b c A) = cols A"
  "coeffs (scale_col b c A) = map (\<lambda>r. r[b := r ! b * c]) (coeffs A)"
  by (simp_all add: scale_col_def)

lemma weighted_row_step:
  assumes "b < length r" and "length w = length r"
  shows "take (Suc b) (r[b := r ! b * w ! b]) @
           map2 (*) (drop (Suc b) (r[b := r ! b * w ! b])) (drop (Suc b) w)
         = take b r @ map2 (*) (drop b r) (drop b w)"
proof -
  have "drop b r = r ! b # drop (Suc b) r" and "drop b w = w ! b # drop (Suc b) w"
    using assms by (simp_all add: Cons_nth_drop_Suc)
  moreover have "take (Suc b) (r[b := r ! b * w ! b]) = take b r @ [r ! b * w ! b]"
    using assms by (simp add: take_Suc_conv_app_nth)
  ultimately show ?thesis by simp
qed

lemma weight_cols_from:
  assumes "list_all (\<lambda>r. length r = cols A) (coeffs A)" and "length w = cols A" and "b \<le> cols A"
  shows "weight_cols b w A =
           Inr (A\<lparr>coeffs := map (\<lambda>r. take b r @ map2 (*) (drop b r) (drop b w)) (coeffs A)\<rparr>)"
  using assms
proof (induction b w A rule: weight_cols.induct)
  case (1 b w A)
  show ?case
  proof (cases "b < cols A")
    case True
    let ?A = "scale_col b (w ! b) A"
    have rowsA: "list_all (\<lambda>r. length r = cols ?A) (coeffs ?A)"
      using "1.prems"(1) by (simp add: list_all_iff)
    have ih: "weight_cols (Suc b) w ?A =
        Inr (?A\<lparr>coeffs := map (\<lambda>r. take (Suc b) r @ map2 (*) (drop (Suc b) r) (drop (Suc b) w))
                             (coeffs ?A)\<rparr>)"
      using "1.IH" [OF True _ rowsA] True "1.prems"(2) by simp
    have "map (\<lambda>r. take (Suc b) r @ map2 (*) (drop (Suc b) r) (drop (Suc b) w)) (coeffs ?A)
          = map (\<lambda>r. take b r @ map2 (*) (drop b r) (drop b w)) (coeffs A)"
      using "1.prems"(1,2) True weighted_row_step [of b _ w]
      by (simp add: list_all_iff)
    moreover have "weight_cols b w A = weight_cols (Suc b) w ?A"
      using True "1.prems"(2) by (subst weight_cols.simps) simp
    ultimately show ?thesis
      using ih by (simp add: scale_col_def)
  next
    case False
    with "1.prems" have b: "b = cols A" by simp
    have "map (\<lambda>r. take b r @ map2 (*) (drop b r) (drop b w)) (coeffs A) = coeffs A"
      using "1.prems"(1) b by (simp add: list_all_iff map_idI)
    moreover have "weight_cols b w A = Inr A"
      using False by (subst weight_cols.simps) simp
    ultimately show ?thesis by simp
  qed
qed

lemma weight_cols_all:
  assumes "wf_MatrixXd A" and "length w = cols A"
  shows "weight_cols 0 w A = Inr (A\<lparr>coeffs := map (\<lambda>r. map2 (*) r w) (coeffs A)\<rparr>)"
  using weight_cols_from [of A w 0] assms by (simp add: wf_MatrixXd_def)

lemma rowwise_sum_weighted:
  "rowwise_sum (A\<lparr>coeffs := map (\<lambda>r. map2 (*) r w) (coeffs A)\<rparr>)
     = \<lparr>rows = rows A, cols = 1, coeffs = map (\<lambda>r. [dot r w]) (coeffs A)\<rparr>"
  by (simp add: rowwise_sum_def dot_def)

lemma saveMatrix_other:
  assumes "saveMatrix d f x ov fs = Inr (r, fs')" and "f' \<noteq> f"
  shows "files fs' (d, f') = files fs (d, f')"
  using assms by (auto simp add: saveMatrix_def split: if_splits)

lemma saveMatrix_written:
  assumes "saveMatrix d f x ov fs = Inr (r, fs')" and "ov \<or> files fs (d, f) = None"
  shows "files fs' (d, f) = Some x"
  using assms by (auto simp add: saveMatrix_def split: if_splits)

lemma predict_reads:
  assumes "isTrained c = isTrained t" and "getModelParameters h' c = getModelParameters h t"
  shows "predict h' c inputs outputs = predict h t inputs outputs"
  using assms by (simp add: predict_def)

lemma pointers_below:
  assumes "heap_ok h" and "points_ok h this"
  shows "meta_parameters this = Some a \<Longrightarrow> a < next_addr h"
    and "model_parameters this = Some b \<Longrightarrow> b < next_addr h"
  using assms by (auto simp add: heap_ok_def points_ok_def dom_def)

lemma install_other:
  assumes "heap_ok h" and "points_ok h this" and "points_ok h other"
      and "\<forall>a. model_parameters this = Some a \<longrightarrow> model_parameters other \<noteq> Some a"
      and "install h this model = (this', h')"
  shows "getModelParameters h' other = getModelParameters h other"
    and "getModelParameters h' this' = Some model"
    and "isTrained this'"
proof -
  have o: "b < next_addr h" if "model_parameters other = Some b" for b
    using pointers_below(2) [OF assms(1,3) that] .
  have t: "b < next_addr h" if "model_parameters this = Some b" for b
    using pointers_below(2) [OF assms(1,2) that] .
  from assms(5) have this': "this' = this\<lparr>model_parameters := Some (next_addr h)\<rparr>"
    by (auto simp add: install_def new_ModelParametersRRRFF_def setModelParameters_def
        split: option.splits if_splits)
  then show "isTrained this'" by (simp add: isTrained_def)
  show "getModelParameters h' this' = Some model"
    using assms(5) t this'
    by (auto simp add: install_def new_ModelParametersRRRFF_def setModelParameters_def
        getModelParameters_def split: option.splits if_splits)
  show "getModelParameters h' other = getModelParameters h other"
  proof (cases "model_parameters other")
    case None
    then show ?thesis by (simp add: getModelParameters_def)
  next
    case (Some b)
    with o have "b \<noteq> next_addr h" by auto
    moreover from Some assms(4) have "model_parameters this \<noteq> Some b" by auto
    ultimately show ?thesis
      using assms(5) Some
      by (auto simp add: install_def new_ModelParametersRRRFF_def setModelParameters_def
          getModelParameters_def split: option.splits if_splits)
  qed
qed

lemma above_mark_free:
  assumes "heap_ok h" and "next_addr h \<le> n"
  shows "metas h n = None" and "models h n = None"
proof -
  from assms have "n \<notin> dom (metas h)" and "n \<notin> dom (models h)"
    by (auto simp add: heap_ok_def)
  then show "metas h n = None" and "models h n = None"
    by (simp_all add: domIff)
qed

lemma clone_MetaParameters_result:
  assumes "heap_ok h" and "case p of None \<Rightarrow> True | Some a \<Rightarrow> metas h a \<noteq> None"
  shows "\<exists>p' h'. clone_MetaParameters h p = Inr (p', h') \<and>
           (p' = None \<longleftrightarrow> p = None) \<and>
           (\<forall>a'. p' = Some a' \<longrightarrow> metas h a' = None \<and> next_addr h \<le> a' \<and> a' < next_addr h' \<and>
                    (\<exists>a. p = Some a \<and> metas h' a' = metas h a)) \<and>
           (\<forall>a. metas h a \<noteq> None \<longrightarrow> metas h' a = metas h a) \<and>
           models h' = models h \<and> next_addr h \<le> next_addr h' \<and> heap_ok h'"
proof (cases p)
  case None
  with assms show ?thesis by (simp add: clone_MetaParameters_def)
next
  case (Some a)
  with assms obtain v where v: "metas h a = Some v" by auto
  have f: "metas h (next_addr h) = None"
    using above_mark_free(1) [OF assms(1)] by simp
  from assms(1) have "heap_ok (h\<lparr>metas := (metas h)(next_addr h \<mapsto> v), next_addr := Suc (next_addr h)\<rparr>)"
    by (auto simp add: heap_ok_def less_Suc_eq)
  with Some v f show ?thesis
    by (auto simp add: clone_MetaParameters_def)
qed

lemma clone_ModelParameters_result:
  assumes "heap_ok h" and "case p of None \<Rightarrow> True | Some a \<Rightarrow> models h a \<noteq> None"
  shows "\<exists>p' h'. clone_ModelParameters h p = Inr (p', h') \<and>
           (p' = None \<longleftrightarrow> p = None) \<and>
           (\<forall>a'. p' = Some a' \<longrightarrow> models h a' = None \<and> next_addr h \<le> a' \<and> a' < next_addr h' \<and>
                    (\<exists>a. p = Some a \<and> models h' a' = models h a)) \<and>
           (\<forall>a. models h a \<noteq> None \<longrightarrow> models h' a = models h a) \<and>
           metas h' = metas h \<and> next_addr h \<le> next_addr h' \<and> heap_ok h'"
proof (cases p)
  case None
  with assms show ?thesis by (simp add: clone_ModelParameters_def)
next
  case (Some a)
  with assms obtain v where v: "models h a = Some v" by auto
  have f: "models h (next_addr h) = None"
    using above_mark_free(2) [OF assms(1)] by simp
  from assms(1) have "heap_ok (h\<lparr>models := (models h)(next_addr h \<mapsto> v), next_addr := Suc (next_addr h)\<rparr>)"
    by (auto simp add: heap_ok_def less_Suc_eq)
  with Some v f show ?thesis
    by (auto simp add: clone_ModelParameters_def)
qed

lemma clone_owns_copies:
  assumes "heap_ok h" and "points_ok h this"
  shows "\<exists>copy h'. clone h this = Inr (copy, h') \<and>
           (meta_parameters copy = None \<longleftrightarrow> meta_parameters this = None) \<and>
           (model_parameters copy = None \<longleftrightarrow> model_parameters this = None) \<and>
           (\<forall>a'. meta_parameters copy = Some a' \<longrightarrow>
              metas h a' = None \<and> (\<exists>a. meta_parameters this = Some a \<and> metas h' a' = metas h a)) \<and>
           (\<forall>b'. model_parameters copy = Some b' \<longrightarrow>
              models h b' = None \<and> (\<exists>b. model_parameters this = Some b \<and> models h' b' = models h b)) \<and>
           (\<forall>a. metas h a \<noteq> None \<longrightarrow> metas h' a = metas h a) \<and>
           (\<forall>b. models h b \<noteq> None \<longrightarrow> models h' b = models h b) \<and>
           heap_ok h'"
proof -
  from assms(2) have pm: "case meta_parameters this of None \<Rightarrow> True | Some a \<Rightarrow> metas h a \<noteq> None"
    and po: "case model_parameters this of None \<Rightarrow> True | Some a \<Rightarrow> models h a \<noteq> None"
    by (simp_all add: points_ok_def)
  from clone_MetaParameters_result [OF assms(1) pm] obtain p1 h1 where
        c1: "clone_MetaParameters h (meta_parameters this) = Inr (p1, h1)"
    and n1: "p1 = None \<longleftrightarrow> meta_parameters this = None"
    and f1: "\<forall>a'. p1 = Some a' \<longrightarrow> metas h a' = None \<and> next_addr h \<le> a' \<and> a' < next_addr h1 \<and>
                    (\<exists>a. meta_parameters this = Some a \<and> metas h1 a' = metas h a)"
    and k1: "\<forall>a. metas h a \<noteq> None \<longrightarrow> metas h1 a = metas h a"
    and o1: "models h1 = models h" and ok1: "heap_ok h1"
    by (elim exE conjE) (rule that, assumption+)
  from po have po1: "case model_parameters this of None \<Rightarrow> True | Some a \<Rightarrow> models h1 a \<noteq> None"
    unfolding o1 .
  from clone_ModelParameters_result [OF ok1 po1] obtain p2 h2 where
        c2: "clone_ModelParameters h1 (model_parameters this) = Inr (p2, h2)"
    and n2: "p2 = None \<longleftrightarrow> model_parameters this = None"
    and f2: "\<forall>a'. p2 = Some a' \<longrightarrow> models h1 a' = None \<and> next_addr h1 \<le> a' \<and> a' < next_addr h2 \<and>
                    (\<exists>a. model_parameters this = Some a \<and> models h2 a' = models h1 a)"
    and k2: "\<forall>a. models h1 a \<noteq> None \<longrightarrow> models h2 a = models h1 a"
    and o2: "metas h2 = metas h1" and ok2: "heap_ok h2"
    by (elim exE conjE) (rule that, assumption+)
  have c: "clone h this = Inr (\<lparr>meta_parameters = p1, model_parameters = p2\<rparr>, h2)"
    using c1 c2 by (simp add: clone_def new_FunctionApproximatorRRRFF_def)
  show ?thesis
    using c n1 n2 f1 f2 k1 k2 o1 o2 ok2
    by (intro exI [of _ "\<lparr>meta_parameters = p1, model_parameters = p2\<rparr>"] exI [of _ h2]) auto
qed


lemma getMetaParameters_elsewhere:
  "meta_parameters t \<noteq> Some a \<Longrightarrow>
   getMetaParameters (h\<lparr>metas := (metas h)(a := x)\<rparr>) t = getMetaParameters h t"
  by (auto simp add: getMetaParameters_def split: option.splits)

lemma getModelParameters_elsewhere:
  "model_parameters t \<noteq> Some b \<Longrightarrow>
   getModelParameters (h\<lparr>models := (models h)(b := y)\<rparr>) t = getModelParameters h t"
  by (auto simp add: getModelParameters_def split: option.splits)

lemma install_metas:
  assumes "install h t model = (t', h')"
  shows "getMetaParameters h' other = getMetaParameters h other"
  using assms
  by (auto simp add: install_def new_ModelParametersRRRFF_def setModelParameters_def
      getMetaParameters_def split: option.splits)

lemma train_changes:
  assumes "train normal_distribution uniform_real leastSquares expected_input_dim rng h t
             inputs targets = Inr (t', h', msgs)"
  shows "(t' = t \<and> h' = h) \<or> (\<exists>model. install h t model = (t', h'))"
  using assms
  by (auto simp add: train_def split: if_splits option.splits sum.splits prod.splits)

lemma clone_state:
  assumes "heap_ok h" and "points_ok h this"
  shows "\<exists>copy h'. clone h this = Inr (copy, h') \<and>
           isTrained copy = isTrained this \<and>
           (meta_parameters copy = None \<longleftrightarrow> meta_parameters this = None) \<and>
           getMetaParameters h' copy = getMetaParameters h this \<and>
           getModelParameters h' copy = getModelParameters h this \<and>
           (\<forall>a. meta_parameters copy = Some a \<longrightarrow> metas h a = None \<and> meta_parameters this \<noteq> Some a) \<and>
           (\<forall>b. model_parameters copy = Some b \<longrightarrow> models h b = None \<and> model_parameters this \<noteq> Some b) \<and>
           (\<forall>a. metas h a \<noteq> None \<longrightarrow> metas h' a = metas h a) \<and>
           (\<forall>b. models h b \<noteq> None \<longrightarrow> models h' b = models h b) \<and>
           getMetaParameters h' this = getMetaParameters h this \<and>
           getModelParameters h' this = getModelParameters h this \<and>
           heap_ok h' \<and> points_ok h' copy \<and> points_ok h' this"
proof -
  from clone_owns_copies [OF assms] obtain copy h' where
        c: "clone h this = Inr (copy, h')"
    and n1: "meta_parameters copy = None \<longleftrightarrow> meta_parameters this = None"
    and n2: "model_parameters copy = None \<longleftrightarrow> model_parameters this = None"
    and f1: "\<forall>a'. meta_parameters copy = Some a' \<longrightarrow>
              metas h a' = None \<and> (\<exists>a. meta_parameters this = Some a \<and> metas h' a' = metas h a)"
    and f2: "\<forall>b'. model_parameters copy = Some b' \<longrightarrow>
              models h b' = None \<and> (\<exists>b. model_parameters this = Some b \<and> models h' b' = models h b)"
    and k1: "\<forall>a. metas h a \<noteq> None \<longrightarrow> metas h' a = metas h a"
    and k2: "\<forall>b. models h b \<noteq> None \<longrightarrow> models h' b = models h b"
    and ok: "heap_ok h'"
    by (elim exE conjE) (rule that, assumption+)
  from assms(2) have pm: "\<And>a. meta_parameters this = Some a \<Longrightarrow> metas h a \<noteq> None"
    and po: "\<And>b. model_parameters this = Some b \<Longrightarrow> models h b \<noteq> None"
    by (auto simp add: points_ok_def)
  have tr: "isTrained copy = isTrained this"
    using n2 by (simp add: isTrained_def)
  have me: "getMetaParameters h' copy = getMetaParameters h this"
    using n1 f1 by (cases "meta_parameters copy") (auto simp add: getMetaParameters_def)
  have mo: "getModelParameters h' copy = getModelParameters h this"
    using n2 f2 by (cases "model_parameters copy") (auto simp add: getModelParameters_def)
  have a1: "\<forall>a. meta_parameters copy = Some a \<longrightarrow> metas h a = None \<and> meta_parameters this \<noteq> Some a"
    using f1 pm by auto
  have a2: "\<forall>b. model_parameters copy = Some b \<longrightarrow> models h b = None \<and> model_parameters this \<noteq> Some b"
    using f2 po by auto
  have s1: "getMetaParameters h' this = getMetaParameters h this"
    using k1 pm by (cases "meta_parameters this") (auto simp add: getMetaParameters_def)
  have s2: "getModelParameters h' this = getModelParameters h this"
    using k2 po by (cases "model_parameters this") (auto simp add: getModelParameters_def)
  have p1: "points_ok h' copy"
  proof -
    have "metas h' a' \<noteq> None" if "meta_parameters copy = Some a'" for a'
      using f1 pm that by auto
    moreover have "models h' b' \<noteq> None" if "model_parameters copy = Some b'" for b'
      using f2 po that by auto
    ultimately show ?thesis
      by (auto simp add: points_ok_def split: option.splits)
  qed
  have p2: "points_ok h' this"
    using k1 k2 pm po by (auto simp add: points_ok_def split: option.splits)
  from c tr n1 me mo a1 a2 k1 k2 s1 s2 ok p1 p2 show ?thesis
    by (intro exI [of _ copy] exI [of _ h']) simp
qed


lemma same_viewI:
  assumes "isTrained t1 = isTrained t2"
      and "getMetaParameters h1 t1 = getMetaParameters h2 t2"
      and "getModelParameters h1 t1 = getModelParameters h2 t2"
  shows "same_view inputs outputs h1 t1 h2 t2"
  using assms predict_reads [OF assms(1,3)] by (simp add: same_view_def)

lemma getModelParameters_metas_update:
  "getModelParameters (h\<lparr>metas := m\<rparr>) t = getModelParameters h t"
  by (simp add: getModelParameters_def split: option.splits)

lemma getMetaParameters_models_update:
  "getMetaParameters (h\<lparr>models := m\<rparr>) t = getMetaParameters h t"
  by (simp add: getMetaParameters_def split: option.splits)

section \<open>Misuse: predicting before training, saving into no directory\<close>

text \<open>
  C4. An untrained approximator's \<^verbatim>\<open>predict\<close> returns normally for any inputs: it
  writes the one warning line and leaves \<^verbatim>\<open>outputs\<close> as the caller passed it.
\<close>

theorem predict_untrained_noop:
  "\<not> isTrained this \<Longrightarrow> predict h this inputs outputs = Inr (outputs, [predict_warning])"
  by (simp add: predict_def)

theorem predict_untrained_noop_witness:
  "\<not> isTrained \<lparr>meta_parameters = Some 0, model_parameters = None\<rparr> \<and>
   predict \<lparr>metas = Map.empty, models = Map.empty, next_addr = 0\<rparr>
     \<lparr>meta_parameters = Some 0, model_parameters = None\<rparr>
     \<lparr>rows = 1, cols = 1, coeffs = [[2]]\<rparr> \<lparr>rows = 0, cols = 0, coeffs = []\<rparr>
   = Inr (\<lparr>rows = 0, cols = 0, coeffs = []\<rparr>, [predict_warning])"
proof -
  have untrained: "\<not> isTrained \<lparr>meta_parameters = Some 0, model_parameters = None\<rparr>"
    by (simp add: isTrained_def)
  from predict_untrained_noop [OF untrained] untrained show ?thesis
    by simp
qed

text \<open>
  C6. With an empty directory string \<^verbatim>\<open>saveGridData\<close> returns true and hands the file
  system back as it was, whatever the writer, the grid generator, the store and the
  approximator are: neither collaborator is consulted and the model pointer is not read.
\<close>

theorem saveGridData_empty_directory:
  "saveGridData write_matrix generateInputsGrid h this min_v max_v n_samples_per_dim
     [] overwrite fs = Inr (True, fs)"
  by (simp add: saveGridData_def)

text \<open>
  C3. On a trained approximator \<^verbatim>\<open>train\<close> returns normally: it writes the two warning
  lines and hands back the approximator and the whole store as they were, so the weights,
  periods and phase of the model are those of before the call.
\<close>

theorem train_twice_noop:
  "isTrained this \<Longrightarrow>
   train normal_distribution uniform_real leastSquares expected_input_dim rng h this inputs targets
     = Inr (this, h, train_warning)"
  by (simp add: train_def)

theorem train_twice_noop_witness:
  "isTrained trained_approximator \<and>
   train draw_zero draw_zero zero_solution 1 () trained_heap trained_approximator
     \<lparr>rows = 1, cols = 1, coeffs = [[5]]\<rparr> \<lparr>rows = 1, cols = 1, coeffs = [[6]]\<rparr>
     = Inr (trained_approximator, trained_heap, train_warning)"
proof -
  have t: "isTrained trained_approximator"
    by (simp add: isTrained_def trained_approximator_def)
  from train_twice_noop [OF t] t show ?thesis by simp
qed

text \<open>
  C10. \<^verbatim>\<open>saveGridData\<close> has no trained-state guard: with a directory that is not empty
  and a grid generator that returns, an untrained approximator makes it use the null model
  pointer, whatever the writer is. A trained approximator whose pointers point to objects
  never does.
\<close>

theorem saveGridData_null_model:
  assumes "save_directory \<noteq> []"
      and "generateInputsGrid min_v max_v n_samples_per_dim = Inr inputs_grid"
  shows "(\<not> isTrained this \<longrightarrow>
            saveGridData write_matrix generateInputsGrid h this min_v max_v n_samples_per_dim
              save_directory overwrite fs0 = Inl NullDereference) \<and>
         (isTrained this \<and> points_ok h this \<longrightarrow>
            saveGridData saveMatrix generateInputsGrid h this min_v max_v n_samples_per_dim
              save_directory overwrite fs \<noteq> Inl NullDereference)"
proof (intro conjI impI)
  assume "\<not> isTrained this"
  with assms show "saveGridData write_matrix generateInputsGrid h this min_v max_v
      n_samples_per_dim save_directory overwrite fs0 = Inl NullDereference"
    by (simp add: saveGridData_def isTrained_def getModelParameters_def)
next
  assume t: "isTrained this \<and> points_ok h this"
  then obtain model where m: "getModelParameters h this = Some model"
    by (auto simp add: isTrained_def points_ok_def getModelParameters_def)
  show "saveGridData saveMatrix generateInputsGrid h this min_v max_v n_samples_per_dim
          save_directory overwrite fs \<noteq> Inl NullDereference"
  proof (cases "cosineActivations model inputs_grid")
    case (Inl e)
    then have "e = AssertionFailed"
      by (simp add: cosineActivations_def activations_failure)
    with Inl assms m show ?thesis
      by (simp add: saveGridData_def)
  next
    case (Inr activations_grid)
    show ?thesis
    proof (cases "weight_cols 0 (weights model) activations_grid")
      case (Inl e)
      then have "e = AssertionFailed" by (rule weight_cols_failure)
      with Inl Inr assms m show ?thesis
        by (auto simp add: saveGridData_def saveMatrix_def)
    next
      case w: (Inr weighted)
      from saveGridData_saveMatrix [of save_directory generateInputsGrid, OF assms m Inr w, of overwrite fs]
      show ?thesis by auto
    qed
  qed
qed

theorem saveGridData_null_model_witness:
  "''out'' \<noteq> [] \<and> unit_grid [0] [1] [2] = Inr two_points \<and>
   \<not> isTrained untrained_approximator \<and>
   saveGridData saveMatrix unit_grid untrained_heap untrained_approximator [0] [1] [2]
     ''out'' True no_files = Inl NullDereference \<and>
   isTrained trained_approximator \<and> points_ok trained_heap trained_approximator \<and>
   saveGridData saveMatrix unit_grid trained_heap trained_approximator [0] [1] [2]
     ''out'' True no_files \<noteq> Inl NullDereference"
proof -
  have d: "''out'' \<noteq> []" by simp
  have g: "unit_grid [0] [1] [2] = Inr two_points"
    by (simp add: unit_grid_def two_points_def)
  have u: "\<not> isTrained untrained_approximator"
    by (simp add: isTrained_def untrained_approximator_def)
  have t: "isTrained trained_approximator \<and> points_ok trained_heap trained_approximator"
    by (simp add: isTrained_def points_ok_def trained_approximator_def trained_heap_def trained_model_def)
  from saveGridData_null_model [of "''out''" unit_grid, OF d g, of untrained_approximator
      saveMatrix untrained_heap True no_files no_files]
    saveGridData_null_model [of "''out''" unit_grid, OF d g, of trained_approximator
      saveMatrix trained_heap True no_files no_files]
    d g u t
  show ?thesis by blast
qed

text \<open>
  C1. What holds of \<^verbatim>\<open>saveGridData\<close> with a directory that is not empty and a model
  whose five artifacts can be computed. Whatever the writer is, the call returns only when
  each of the five writes returned, in order and each on the file system the one before
  left; it then returns true, whatever status the five writes returned. With the writer of
  the spec it returns true; when \<^verbatim>\<open>overwrite\<close> is false every file that existed is left
  as it was, and the refusal to write over the first file is reported by the writer while
  the return value stays true.
\<close>

theorem saveGridData_returns_true:
  assumes "save_directory \<noteq> []"
      and "generateInputsGrid min_v max_v n_samples_per_dim = Inr inputs_grid"
      and "getModelParameters h this = Some model"
      and "cosineActivations model inputs_grid = Inr activations_grid"
      and "weight_cols 0 (weights model) activations_grid = Inr weighted"
  shows "(\<forall>r fs'. saveGridData write_matrix generateInputsGrid h this min_v max_v
                     n_samples_per_dim save_directory overwrite fs0 = Inr (r, fs') \<longrightarrow>
            r \<and>
            (\<exists>r1 fs1 r2 fs2 r3 fs3 r4 fs4 r5.
               write_matrix save_directory ''n_samples_per_dim.txt'' (SavedXi n_samples_per_dim)
                 overwrite fs0 = Inr (r1, fs1) \<and>
               write_matrix save_directory ''inputs_grid.txt'' (SavedXd inputs_grid)
                 overwrite fs1 = Inr (r2, fs2) \<and>
               write_matrix save_directory ''activations_grid.txt'' (SavedXd activations_grid)
                 overwrite fs2 = Inr (r3, fs3) \<and>
               write_matrix save_directory ''activations_weighted_grid.txt'' (SavedXd weighted)
                 overwrite fs3 = Inr (r4, fs4) \<and>
               write_matrix save_directory ''predictions_grid.txt''
                 (SavedXd (rowwise_sum weighted)) overwrite fs4 = Inr (r5, fs'))) \<and>
         (\<exists>fs'. saveGridData saveMatrix generateInputsGrid h this min_v max_v
                   n_samples_per_dim save_directory overwrite fs = Inr (True, fs') \<and>
                (\<forall>k. \<not> overwrite \<and> files fs k \<noteq> None \<longrightarrow> files fs' k = files fs k) \<and>
                (\<not> overwrite \<and> files fs (save_directory, ''n_samples_per_dim.txt'') \<noteq> None
                   \<longrightarrow> (save_directory, ''n_samples_per_dim.txt'') \<in> set (reported fs')))"
proof
  show "\<forall>r fs'. saveGridData write_matrix generateInputsGrid h this min_v max_v
                     n_samples_per_dim save_directory overwrite fs0 = Inr (r, fs') \<longrightarrow>
            r \<and>
            (\<exists>r1 fs1 r2 fs2 r3 fs3 r4 fs4 r5.
               write_matrix save_directory ''n_samples_per_dim.txt'' (SavedXi n_samples_per_dim)
                 overwrite fs0 = Inr (r1, fs1) \<and>
               write_matrix save_directory ''inputs_grid.txt'' (SavedXd inputs_grid)
                 overwrite fs1 = Inr (r2, fs2) \<and>
               write_matrix save_directory ''activations_grid.txt'' (SavedXd activations_grid)
                 overwrite fs2 = Inr (r3, fs3) \<and>
               write_matrix save_directory ''activations_weighted_grid.txt'' (SavedXd weighted)
                 overwrite fs3 = Inr (r4, fs4) \<and>
               write_matrix save_directory ''predictions_grid.txt''
                 (SavedXd (rowwise_sum weighted)) overwrite fs4 = Inr (r5, fs'))"
    using assms unfolding saveGridData_def
    by (auto split: sum.splits prod.splits)
next
  from saveGridData_saveMatrix [of save_directory generateInputsGrid, OF assms, of overwrite fs]
  obtain r1 fs1 r2 fs2 r3 fs3 r4 fs4 r5 fs5 where
        w1: "saveMatrix save_directory ''n_samples_per_dim.txt'' (SavedXi n_samples_per_dim)
               overwrite fs = Inr (r1, fs1)"
    and w2: "saveMatrix save_directory ''inputs_grid.txt'' (SavedXd inputs_grid)
               overwrite fs1 = Inr (r2, fs2)"
    and w3: "saveMatrix save_directory ''activations_grid.txt'' (SavedXd activations_grid)
               overwrite fs2 = Inr (r3, fs3)"
    and w4: "saveMatrix save_directory ''activations_weighted_grid.txt'' (SavedXd weighted)
               overwrite fs3 = Inr (r4, fs4)"
    and w5: "saveMatrix save_directory ''predictions_grid.txt'' (SavedXd (rowwise_sum weighted))
               overwrite fs4 = Inr (r5, fs5)"
    and result: "saveGridData saveMatrix generateInputsGrid h this min_v max_v n_samples_per_dim
                   save_directory overwrite fs = Inr (True, fs5)"
    by blast
  have kept: "files fs5 k = files fs k" if "\<not> overwrite" and "files fs k \<noteq> None" for k
  proof -
    have k1: "files fs1 k = files fs k" using saveMatrix_keeps [OF w1] that by simp
    have k2: "files fs2 k = files fs k" using saveMatrix_keeps [OF w2] that k1 by simp
    have k3: "files fs3 k = files fs k" using saveMatrix_keeps [OF w3] that k2 by simp
    have k4: "files fs4 k = files fs k" using saveMatrix_keeps [OF w4] that k3 by simp
    show ?thesis using saveMatrix_keeps [OF w5] that k4 by simp
  qed
  have told: "(save_directory, ''n_samples_per_dim.txt'') \<in> set (reported fs5)"
    if "\<not> overwrite" and "files fs (save_directory, ''n_samples_per_dim.txt'') \<noteq> None"
  proof -
    have "(save_directory, ''n_samples_per_dim.txt'') \<in> set (reported fs1)"
      using saveMatrix_reports(2) [OF w1] that by simp
    then show ?thesis
      using saveMatrix_reports(1) [OF w2] saveMatrix_reports(1) [OF w3]
            saveMatrix_reports(1) [OF w4] saveMatrix_reports(1) [OF w5] by blast
  qed
  show "\<exists>fs'. saveGridData saveMatrix generateInputsGrid h this min_v max_v
                 n_samples_per_dim save_directory overwrite fs = Inr (True, fs') \<and>
              (\<forall>k. \<not> overwrite \<and> files fs k \<noteq> None \<longrightarrow> files fs' k = files fs k) \<and>
              (\<not> overwrite \<and> files fs (save_directory, ''n_samples_per_dim.txt'') \<noteq> None
                 \<longrightarrow> (save_directory, ''n_samples_per_dim.txt'') \<in> set (reported fs'))"
    using result kept told by blast
qed

theorem saveGridData_returns_true_witness:
  "''out'' \<noteq> [] \<and> unit_grid [0] [1] [2] = Inr two_points \<and>
   getModelParameters trained_heap trained_approximator
     = Some \<lparr>weights = [3, 2],
             cosines_periodes = \<lparr>rows = 2, cols = 1, coeffs = [[0], [1]]\<rparr>,
             cosines_phase = [0, 0]\<rparr> \<and>
   cosineActivations \<lparr>weights = [3, 2],
             cosines_periodes = \<lparr>rows = 2, cols = 1, coeffs = [[0], [1]]\<rparr>,
             cosines_phase = [0, 0]\<rparr> two_points
     = Inr \<lparr>rows = 2, cols = 2, coeffs = [[1, 1], [1, cos 1]]\<rparr> \<and>
   weight_cols 0 [3, 2] \<lparr>rows = 2, cols = 2, coeffs = [[1, 1], [1, cos 1]]\<rparr>
     = Inr \<lparr>rows = 2, cols = 2, coeffs = [[3, 2], [3, cos 1 * 2]]\<rparr> \<and>
   (\<exists>fs'. saveGridData saveMatrix unit_grid trained_heap trained_approximator [0] [1] [2]
             ''out'' False stale_files = Inr (True, fs') \<and>
          files fs' (''out'', ''n_samples_per_dim.txt'') = Some (SavedXi [7]) \<and>
          (''out'', ''n_samples_per_dim.txt'') \<in> set (reported fs'))"
proof -
  let ?model = "\<lparr>weights = [3, 2],
             cosines_periodes = \<lparr>rows = 2, cols = 1, coeffs = [[0], [1]]\<rparr>,
             cosines_phase = [0, 0]\<rparr>"
  have d: "''out'' \<noteq> []" by simp
  have g: "unit_grid [0] [1] [2] = Inr two_points"
    by (simp add: unit_grid_def two_points_def)
  have m: "getModelParameters trained_heap trained_approximator = Some ?model"
    by (simp add: getModelParameters_def trained_heap_def trained_model_def trained_approximator_def)
  have a: "cosineActivations ?model two_points
             = Inr \<lparr>rows = 2, cols = 2, coeffs = [[1, 1], [1, cos 1]]\<rparr>"
    by (simp add: cosineActivations_def activations_def two_points_def dot_def)
  have w: "weight_cols 0 (weights ?model) \<lparr>rows = 2, cols = 2, coeffs = [[1, 1], [1, cos 1]]\<rparr>
             = Inr \<lparr>rows = 2, cols = 2, coeffs = [[3, 2], [3, cos 1 * 2]]\<rparr>"
    by (simp add: scale_col_def)
  have s: "files stale_files (''out'', ''n_samples_per_dim.txt'') = Some (SavedXi [7])"
    by (simp add: stale_files_def)
  from saveGridData_returns_true [of "''out''" unit_grid, OF d g m a w,
      of saveMatrix False stale_files stale_files] d g m a w s
  show ?thesis by auto
qed

text \<open>
  C1 as stated fails: the first of the five writes is refused and returns false, and
  \<^verbatim>\<open>saveGridData\<close> returns true.
\<close>

theorem saveGridData_failed_write_counterexample:
  "returned (saveMatrix ''out'' ''n_samples_per_dim.txt'' (SavedXi [2]) False stale_files)
     = Some False \<and>
   returned (saveGridData saveMatrix unit_grid trained_heap trained_approximator [0] [1] [2]
               ''out'' False stale_files) = Some True"
  by (simp add: saveGridData_def unit_grid_def trained_heap_def trained_model_def trained_approximator_def
      getModelParameters_def cosineActivations_def activations_def saveMatrix_def
      stale_files_def returned_def dot_def scale_col_def rowwise_sum_def)

text \<open>
  C2. What holds of step 6 of \<^verbatim>\<open>train\<close>. On an untrained approximator with fitting sizes,
  \<^verbatim>\<open>train\<close> passes the cosine activations of the inputs and the targets to the solver
  with no offset and the regularization of the meta-parameters. A solution of one column
  becomes the weight vector of the installed model: one weight per basis function, beside
  the periods and phase drawn, and the model satisfies the size invariant. A solution of
  any other number of columns does not fit the vector that receives it: the call fails
  and installs nothing.
\<close>

theorem train_installs_solution:
  assumes "\<not> isTrained this"
      and "rows inputs = rows targets"
      and "cols inputs = expected_input_dim"
      and "getMetaParameters h this = Some meta"
      and "0 \<le> number_of_basis_functions meta"
      and "draw_features normal_distribution uniform_real rng meta (cols inputs) = (periodes, phase)"
  shows "\<exists>proj. activations periodes phase inputs = Inr proj \<and> rows proj = rows inputs \<and>
           cols proj = nat (number_of_basis_functions meta) \<and>
           (\<forall>W. leastSquares proj targets False (regularization meta) = Inr W \<longrightarrow>
              (wf_MatrixXd W \<and> rows W = cols proj \<and> cols W = 1 \<longrightarrow>
                 (\<exists>this' h' model.
                    train normal_distribution uniform_real leastSquares expected_input_dim rng
                      h this inputs targets = Inr (this', h', []) \<and>
                    isTrained this' \<and> getModelParameters h' this' = Some model \<and>
                    cosines_periodes model = periodes \<and> cosines_phase model = phase \<and>
                    length (weights model) = nat (number_of_basis_functions meta) \<and>
                    (\<forall>j. j < length (weights model) \<longrightarrow> weights model ! j = coeffs W ! j ! 0) \<and>
                    model_ok model)) \<and>
              (cols W \<noteq> 1 \<longrightarrow>
                 train normal_distribution uniform_real leastSquares expected_input_dim rng
                   h this inputs targets = Inl AssertionFailed))"
proof -
  let ?B = "nat (number_of_basis_functions meta)"
  note sz = draw_features_sizes [OF assms(6)]
  define proj where "proj = \<lparr>rows = rows inputs, cols = rows periodes,
      coeffs = map (\<lambda>x. map2 (\<lambda>p ph. cos (dot p x + ph)) (coeffs periodes) phase) (coeffs inputs)\<rparr>"
  have act: "activations periodes phase inputs = Inr proj"
    using sz by (simp add: activations_def proj_def)
  have pr: "rows proj = rows inputs" and pc: "cols proj = ?B"
    using sz by (simp_all add: proj_def)
  have step: "train normal_distribution uniform_real leastSquares expected_input_dim rng
                h this inputs targets =
              (case to_VectorXd W of
                 Inl e \<Rightarrow> Inl e
               | Inr linear_model \<Rightarrow>
                   Inr (this\<lparr>model_parameters := Some (next_addr h)\<rparr>,
                        h\<lparr>models := (models h)(next_addr h \<mapsto>
                             \<lparr>weights = linear_model, cosines_periodes = periodes,
                              cosines_phase = phase\<rparr>),
                          next_addr := Suc (next_addr h)\<rparr>, []))"
    if "leastSquares proj targets False (regularization meta) = Inr W" for W
    using assms act that
    by (simp add: train_def install_def new_ModelParametersRRRFF_def setModelParameters_def
        isTrained_def split: sum.splits)
  have good: "\<exists>this' h' model.
                train normal_distribution uniform_real leastSquares expected_input_dim rng
                  h this inputs targets = Inr (this', h', []) \<and>
                isTrained this' \<and> getModelParameters h' this' = Some model \<and>
                cosines_periodes model = periodes \<and> cosines_phase model = phase \<and>
                length (weights model) = ?B \<and>
                (\<forall>j. j < length (weights model) \<longrightarrow> weights model ! j = coeffs W ! j ! 0) \<and>
                model_ok model"
    if ls: "leastSquares proj targets False (regularization meta) = Inr W"
      and w: "wf_MatrixXd W \<and> rows W = cols proj \<and> cols W = 1" for W
  proof -
    from w have wfW: "wf_MatrixXd W" and c1: "cols W = 1" and r1: "rows W = cols proj"
      by simp_all
    from wfW have "list_all (\<lambda>r. length r = cols W) (coeffs W)"
      by (simp add: wf_MatrixXd_def)
    with c1 have ones: "list_all (\<lambda>r. length r = Suc 0) (coeffs W)"
      by simp
    from wfW r1 pc have len: "length (coeffs W) = ?B"
      by (simp add: wf_MatrixXd_def)
    have v: "to_VectorXd W = Inr (map (\<lambda>r. r ! 0) (coeffs W))"
      using w concat_singletons [OF ones] by (simp add: to_VectorXd_def)
    let ?model = "\<lparr>weights = map (\<lambda>r. r ! 0) (coeffs W), cosines_periodes = periodes,
                    cosines_phase = phase\<rparr>"
    have "train normal_distribution uniform_real leastSquares expected_input_dim rng
            h this inputs targets =
          Inr (this\<lparr>model_parameters := Some (next_addr h)\<rparr>,
               h\<lparr>models := (models h)(next_addr h \<mapsto> ?model), next_addr := Suc (next_addr h)\<rparr>, [])"
      using step [OF ls] v by simp
    moreover have "isTrained (this\<lparr>model_parameters := Some (next_addr h)\<rparr>)"
      by (simp add: isTrained_def)
    moreover have "getModelParameters
        (h\<lparr>models := (models h)(next_addr h \<mapsto> ?model), next_addr := Suc (next_addr h)\<rparr>)
        (this\<lparr>model_parameters := Some (next_addr h)\<rparr>) = Some ?model"
      by (simp add: getModelParameters_def)
    moreover have "model_ok ?model"
      using sz len by (simp add: model_ok_def)
    ultimately show ?thesis
      using len by (intro exI [of _ "this\<lparr>model_parameters := Some (next_addr h)\<rparr>"]
          exI [of _ "h\<lparr>models := (models h)(next_addr h \<mapsto> ?model), next_addr := Suc (next_addr h)\<rparr>"]
          exI [of _ ?model]) simp
  qed
  have bad: "train normal_distribution uniform_real leastSquares expected_input_dim rng
               h this inputs targets = Inl AssertionFailed"
    if ls: "leastSquares proj targets False (regularization meta) = Inr W"
      and w: "cols W \<noteq> 1" for W
    using step [OF ls] w by (simp add: to_VectorXd_def)
  from act pr pc good bad show ?thesis by blast
qed

theorem train_installs_solution_witness:
  "\<not> isTrained untrained_approximator \<and>
   rows two_points = rows \<lparr>rows = 2, cols = 1, coeffs = [[0], [0]]\<rparr> \<and>
   cols two_points = 1 \<and>
   getMetaParameters untrained_heap untrained_approximator
     = Some \<lparr>number_of_basis_functions = 2, gamma = 1, regularization = 1\<rparr> \<and>
   0 \<le> number_of_basis_functions
          \<lparr>number_of_basis_functions = 2, gamma = 1, regularization = 1\<rparr> \<and>
   draw_features draw_zero draw_zero ()
       \<lparr>number_of_basis_functions = 2, gamma = 1, regularization = 1\<rparr> (cols two_points)
     = (\<lparr>rows = 2, cols = 1, coeffs = [[0], [0]]\<rparr>, [0, 0]) \<and>
   (\<exists>this' h' model.
      train draw_zero draw_zero zero_solution 1 () untrained_heap untrained_approximator
        two_points \<lparr>rows = 2, cols = 1, coeffs = [[0], [0]]\<rparr> = Inr (this', h', []) \<and>
      isTrained this' \<and> getModelParameters h' this' = Some model \<and>
      cosines_periodes model = \<lparr>rows = 2, cols = 1, coeffs = [[0], [0]]\<rparr> \<and>
      cosines_phase model = [0, 0] \<and> length (weights model) = 2 \<and> model_ok model)"
proof -
  let ?meta = "\<lparr>number_of_basis_functions = 2, gamma = 1, regularization = 1\<rparr>"
  let ?targets = "\<lparr>rows = 2, cols = 1, coeffs = [[0], [0]]\<rparr>"
  let ?periodes = "\<lparr>rows = 2, cols = 1, coeffs = [[0], [0]]\<rparr>"
  have u: "\<not> isTrained untrained_approximator"
    by (simp add: isTrained_def untrained_approximator_def)
  have r: "rows two_points = rows ?targets" and c: "cols two_points = 1"
    by (simp_all add: two_points_def)
  have m: "getMetaParameters untrained_heap untrained_approximator = Some ?meta"
    by (simp add: getMetaParameters_def untrained_heap_def untrained_approximator_def)
  have b: "0 \<le> number_of_basis_functions ?meta" by simp
  have f: "draw_features draw_zero draw_zero () ?meta (cols two_points) = (?periodes, [0, 0])"
    by (simp add: draw_features_def draw_zero_def two_points_def eval_nat_numeral)
  from train_installs_solution [OF u r c m b f, of zero_solution]
  obtain proj where p: "cols proj = nat (number_of_basis_functions ?meta)"
    and rest: "\<forall>W. zero_solution proj ?targets False (regularization ?meta) = Inr W \<longrightarrow>
              (wf_MatrixXd W \<and> rows W = cols proj \<and> cols W = 1 \<longrightarrow>
                 (\<exists>this' h' model.
                    train draw_zero draw_zero zero_solution 1 () untrained_heap
                      untrained_approximator two_points ?targets = Inr (this', h', []) \<and>
                    isTrained this' \<and> getModelParameters h' this' = Some model \<and>
                    cosines_periodes model = ?periodes \<and> cosines_phase model = [0, 0] \<and>
                    length (weights model) = nat (number_of_basis_functions ?meta) \<and>
                    (\<forall>j. j < length (weights model) \<longrightarrow> weights model ! j = coeffs W ! j ! 0) \<and>
                    model_ok model))"
    by blast
  let ?W = "\<lparr>rows = cols proj, cols = 1, coeffs = replicate (cols proj) [0]\<rparr>"
  have z: "zero_solution proj ?targets False (regularization ?meta) = Inr ?W"
    by (simp add: zero_solution_def)
  have wf: "wf_MatrixXd ?W \<and> rows ?W = cols proj \<and> cols ?W = 1"
    by (simp add: wf_MatrixXd_def list_all_length)
  from rest z wf have "\<exists>this' h' model.
      train draw_zero draw_zero zero_solution 1 () untrained_heap untrained_approximator
        two_points ?targets = Inr (this', h', []) \<and>
      isTrained this' \<and> getModelParameters h' this' = Some model \<and>
      cosines_periodes model = ?periodes \<and> cosines_phase model = [0, 0] \<and>
      length (weights model) = nat (number_of_basis_functions ?meta) \<and> model_ok model"
    by blast
  with u r c m b f show ?thesis by simp
qed

text \<open>
  C2 as stated fails for two target columns: the solver returns a matrix of two rows and
  two columns, and \<^verbatim>\<open>train\<close> fails.
\<close>

theorem train_two_columns_counterexample:
  "zero_solution \<lparr>rows = 2, cols = 2, coeffs = [[1, 1], [1, 1]]\<rparr>
     \<lparr>rows = 2, cols = 2, coeffs = [[0, 0], [0, 0]]\<rparr> False 1
     = Inr \<lparr>rows = 2, cols = 2, coeffs = [[0, 0], [0, 0]]\<rparr> \<and>
   train draw_zero draw_zero zero_solution 1 () untrained_heap untrained_approximator
     \<lparr>rows = 2, cols = 1, coeffs = [[0], [1]]\<rparr>
     \<lparr>rows = 2, cols = 2, coeffs = [[0, 0], [0, 0]]\<rparr> = Inl AssertionFailed"
  by (simp add: train_def isTrained_def untrained_approximator_def untrained_heap_def
      getMetaParameters_def draw_features_def draw_zero_def activations_def zero_solution_def
      to_VectorXd_def eval_nat_numeral)


section \<open>Activations, predictions and the grid\<close>

text \<open>
  C8. For periods and inputs that are matrices of the sizes they carry, with as many
  columns, and one phase per period row, the activation at row i and column j is the
  cosine of the dot product of period row j with input row i, plus phase j. With one
  period 0 and phase 0 every activation of every one-column input is 1.
\<close>

theorem activations_are_cosines:
  assumes "wf_MatrixXd periods" and "wf_MatrixXd inputs"
      and "cols inputs = cols periods" and "length phase = rows periods"
  shows "(\<exists>A. activations periods phase inputs = Inr A \<and>
             rows A = rows inputs \<and> cols A = rows periods \<and> wf_MatrixXd A \<and>
             (\<forall>i j. i < rows inputs \<and> j < rows periods \<longrightarrow>
                coeffs A ! i ! j =
                cos ((\<Sum>d<cols periods. coeffs periods ! j ! d * coeffs inputs ! i ! d) + phase ! j))) \<and>
         (\<forall>xs. activations \<lparr>rows = 1, cols = 1, coeffs = [[0]]\<rparr> [0]
                 \<lparr>rows = length xs, cols = 1, coeffs = map (\<lambda>x. [x]) xs\<rparr>
               = Inr \<lparr>rows = length xs, cols = 1, coeffs = replicate (length xs) [1]\<rparr>)"
proof
  show "\<exists>A. activations periods phase inputs = Inr A \<and>
             rows A = rows inputs \<and> cols A = rows periods \<and> wf_MatrixXd A \<and>
             (\<forall>i j. i < rows inputs \<and> j < rows periods \<longrightarrow>
                coeffs A ! i ! j =
                cos ((\<Sum>d<cols periods. coeffs periods ! j ! d * coeffs inputs ! i ! d) + phase ! j))"
    using activations_value [OF assms(3,4)] activations_wf [OF assms]
      activations_entry [OF assms] by simp
next
  show "\<forall>xs. activations \<lparr>rows = 1, cols = 1, coeffs = [[0]]\<rparr> [0]
                 \<lparr>rows = length xs, cols = 1, coeffs = map (\<lambda>x. [x]) xs\<rparr>
               = Inr \<lparr>rows = length xs, cols = 1, coeffs = replicate (length xs) [1]\<rparr>"
    by (simp add: activations_def dot_def map_replicate_const comp_def)
qed

theorem activations_are_cosines_witness:
  "wf_MatrixXd \<lparr>rows = 2, cols = 1, coeffs = [[0], [1]]\<rparr> \<and> wf_MatrixXd two_points \<and>
   cols two_points = cols \<lparr>rows = 2, cols = 1, coeffs = [[0], [1]]\<rparr> \<and>
   length [0, 0 :: real] = rows \<lparr>rows = 2, cols = 1, coeffs = [[0], [1]]\<rparr> \<and>
   (\<exists>A. activations \<lparr>rows = 2, cols = 1, coeffs = [[0], [1]]\<rparr> [0, 0] two_points = Inr A \<and>
        rows A = 2 \<and> cols A = 2 \<and> coeffs A ! 1 ! 1 = cos 1 \<and> coeffs A ! 1 ! 0 = 1) \<and>
   activations \<lparr>rows = 1, cols = 1, coeffs = [[0]]\<rparr> [0]
     \<lparr>rows = 2, cols = 1, coeffs = [[5], [7]]\<rparr>
     = Inr \<lparr>rows = 2, cols = 1, coeffs = [[1], [1]]\<rparr>"
proof -
  let ?P = "\<lparr>rows = 2, cols = 1, coeffs = [[0], [1]]\<rparr>"
  have a: "wf_MatrixXd ?P" and b: "wf_MatrixXd two_points"
    by (simp_all add: wf_MatrixXd_def two_points_def)
  have c: "cols two_points = cols ?P" and d: "length [0, 0 :: real] = rows ?P"
    by (simp_all add: two_points_def)
  note t = activations_are_cosines [OF a b c d]
  from t obtain A where A: "activations ?P [0, 0] two_points = Inr A"
    and sz: "rows A = rows two_points" "cols A = rows ?P"
    and e: "\<forall>i j. i < rows two_points \<and> j < rows ?P \<longrightarrow>
              coeffs A ! i ! j =
              cos ((\<Sum>d<cols ?P. coeffs ?P ! j ! d * coeffs two_points ! i ! d) + [0, 0] ! j)"
    by blast
  from e have "coeffs A ! 1 ! 1 = cos 1" and "coeffs A ! 1 ! 0 = 1"
    by (simp_all add: two_points_def)
  with A sz have first: "\<exists>A. activations ?P [0, 0] two_points = Inr A \<and>
        rows A = 2 \<and> cols A = 2 \<and> coeffs A ! 1 ! 1 = cos 1 \<and> coeffs A ! 1 ! 0 = 1"
    by (simp add: two_points_def)
  from t have "activations \<lparr>rows = 1, cols = 1, coeffs = [[0]]\<rparr> [0]
      \<lparr>rows = length [5, 7 :: real], cols = 1, coeffs = map (\<lambda>x. [x]) [5, 7]\<rparr>
      = Inr \<lparr>rows = length [5, 7 :: real], cols = 1, coeffs = replicate (length [5, 7 :: real]) [1]\<rparr>"
    by blast
  then have second: "activations \<lparr>rows = 1, cols = 1, coeffs = [[0]]\<rparr> [0]
      \<lparr>rows = 2, cols = 1, coeffs = [[5], [7]]\<rparr> = Inr \<lparr>rows = 2, cols = 1, coeffs = [[1], [1]]\<rparr>"
    by (simp add: eval_nat_numeral)
  from a b c d first second show ?thesis by blast
qed

text \<open>
  C5. For a trained approximator whose model satisfies the size invariant and inputs of
  M rows and as many columns as the periods, \<^verbatim>\<open>predict\<close> returns the product of the
  cosine activations of the inputs with the stored weights: row i of the outputs is the
  sum over the basis functions j of the activation at (i, j) times weight j. The result
  does not depend on what \<^verbatim>\<open>outputs\<close> held before, and nothing is written to \<^verbatim>\<open>cerr\<close>.
\<close>

theorem predict_activations_times_weights:
  assumes "isTrained this" and "getModelParameters h this = Some model" and "model_ok model"
      and "wf_MatrixXd inputs" and "cols inputs = cols (cosines_periodes model)"
  shows "\<exists>A out. cosineActivations model inputs = Inr A \<and>
           times_vec A (weights model) = Inr out \<and>
           predict h this inputs outputs = Inr (out, []) \<and>
           predict h this inputs outputs' = Inr (out, []) \<and>
           rows out = rows inputs \<and> cols out = 1 \<and>
           (\<forall>i. i < rows inputs \<longrightarrow>
              coeffs out ! i =
              [\<Sum>j<rows (cosines_periodes model).
                  cos ((\<Sum>d<cols (cosines_periodes model).
                          coeffs (cosines_periodes model) ! j ! d * coeffs inputs ! i ! d)
                       + cosines_phase model ! j) * weights model ! j])"
proof -
  let ?P = "cosines_periodes model" and ?ph = "cosines_phase model" and ?w = "weights model"
  from assms(3) have wfP: "wf_MatrixXd ?P" and lph: "length ?ph = rows ?P"
    and lw: "length ?w = rows ?P"
    by (simp_all add: model_ok_def)
  define A where "A = \<lparr>rows = rows inputs, cols = rows ?P,
      coeffs = map (\<lambda>x. map2 (\<lambda>p ph. cos (dot p x + ph)) (coeffs ?P) ?ph) (coeffs inputs)\<rparr>"
  define out where "out = \<lparr>rows = rows A, cols = 1, coeffs = map (\<lambda>r. [dot r ?w]) (coeffs A)\<rparr>"
  have act: "cosineActivations model inputs = Inr A"
    using activations_value [OF assms(5) lph] by (simp add: cosineActivations_def A_def)
  have wfA: "wf_MatrixXd A"
    unfolding A_def by (rule activations_wf [OF wfP assms(4,5) lph])
  have cA: "cols A = rows ?P" and rA: "rows A = rows inputs"
    by (simp_all add: A_def)
  have tv: "times_vec A ?w = Inr out"
    using lw cA by (simp add: times_vec_def out_def)
  have p: "predict h this inputs o' = Inr (out, [])" for o'
    using assms(1,2) act tv by (simp add: predict_def)
  have entry: "coeffs out ! i =
      [\<Sum>j<rows ?P. cos ((\<Sum>d<cols ?P. coeffs ?P ! j ! d * coeffs inputs ! i ! d) + ?ph ! j) * ?w ! j]"
    if "i < rows inputs" for i
  proof -
    have "coeffs out ! i = [\<Sum>j<cols A. coeffs A ! i ! j * ?w ! j]"
      using times_vec_entry [OF wfA, of ?w i] lw cA rA that by (simp add: out_def)
    also have "\<dots> = [\<Sum>j<rows ?P.
        cos ((\<Sum>d<cols ?P. coeffs ?P ! j ! d * coeffs inputs ! i ! d) + ?ph ! j) * ?w ! j]"
      using activations_entry [OF wfP assms(4,5) lph that] cA by (simp add: A_def)
    finally show ?thesis .
  qed
  from act tv p entry rA show ?thesis
    by (intro exI [of _ A] exI [of _ out]) (simp add: out_def)
qed

theorem predict_activations_times_weights_witness:
  "isTrained trained_approximator \<and>
   getModelParameters trained_heap trained_approximator = Some trained_model \<and>
   model_ok trained_model \<and> wf_MatrixXd two_points \<and>
   cols two_points = cols (cosines_periodes trained_model) \<and>
   predict trained_heap trained_approximator two_points \<lparr>rows = 0, cols = 0, coeffs = []\<rparr>
     = Inr (\<lparr>rows = 2, cols = 1, coeffs = [[5], [3 + cos 1 * 2]]\<rparr>, [])"
proof -
  have t: "isTrained trained_approximator"
    by (simp add: isTrained_def trained_approximator_def)
  have m: "getModelParameters trained_heap trained_approximator = Some trained_model"
    by (simp add: getModelParameters_def trained_heap_def trained_model_def trained_approximator_def
        trained_model_def)
  have ok: "model_ok trained_model"
    by (simp add: model_ok_def wf_MatrixXd_def trained_model_def)
  have wf: "wf_MatrixXd two_points"
    by (simp add: wf_MatrixXd_def two_points_def)
  have c: "cols two_points = cols (cosines_periodes trained_model)"
    by (simp add: two_points_def trained_model_def)
  from predict_activations_times_weights [OF t m ok wf c,
      of "\<lparr>rows = 0, cols = 0, coeffs = []\<rparr>" "\<lparr>rows = 0, cols = 0, coeffs = []\<rparr>"]
  obtain A out where A: "cosineActivations trained_model two_points = Inr A"
    and o: "times_vec A (weights trained_model) = Inr out"
    and p: "predict trained_heap trained_approximator two_points
              \<lparr>rows = 0, cols = 0, coeffs = []\<rparr> = Inr (out, [])"
    by blast
  from A have "A = \<lparr>rows = 2, cols = 2, coeffs = [[1, 1], [1, cos 1]]\<rparr>"
    by (simp add: cosineActivations_def activations_def two_points_def trained_model_def dot_def)
  with o have "out = \<lparr>rows = 2, cols = 1, coeffs = [[5], [3 + cos 1 * 2]]\<rparr>"
    by (auto simp add: times_vec_def trained_model_def dot_def)
  with t m ok wf c p show ?thesis by simp
qed

text \<open>
  C7. For a trained approximator whose model satisfies the size invariant and a grid with
  as many columns as the periods, the loop of \<^verbatim>\<open>saveGridData\<close> scales column b of the
  activations by weight b, and the row sums of the result are the product of the
  activations with the weights: what \<^verbatim>\<open>predict\<close> returns on the grid. When the write is
  not refused, that matrix is the content of \<^verbatim>\<open>predictions_grid.txt\<close> afterwards.
\<close>

theorem saveGridData_predictions_are_predict:
  assumes "save_directory \<noteq> []"
      and "generateInputsGrid min_v max_v n_samples_per_dim = Inr inputs_grid"
      and "getModelParameters h this = Some model"
      and "model_ok model"
      and "wf_MatrixXd inputs_grid"
      and "cols inputs_grid = cols (cosines_periodes model)"
      and "overwrite \<or> files fs (save_directory, ''predictions_grid.txt'') = None"
  shows "\<exists>A weighted fs'.
           cosineActivations model inputs_grid = Inr A \<and>
           weight_cols 0 (weights model) A = Inr weighted \<and>
           coeffs weighted = map (\<lambda>r. map2 (*) r (weights model)) (coeffs A) \<and>
           times_vec A (weights model) = Inr (rowwise_sum weighted) \<and>
           predict h this inputs_grid outputs = Inr (rowwise_sum weighted, []) \<and>
           saveGridData saveMatrix generateInputsGrid h this min_v max_v n_samples_per_dim
             save_directory overwrite fs = Inr (True, fs') \<and>
           files fs' (save_directory, ''predictions_grid.txt'')
             = Some (SavedXd (rowwise_sum weighted))"
proof -
  let ?P = "cosines_periodes model" and ?ph = "cosines_phase model" and ?w = "weights model"
  from assms(4) have wfP: "wf_MatrixXd ?P" and lph: "length ?ph = rows ?P"
    and lw: "length ?w = rows ?P"
    by (simp_all add: model_ok_def)
  from assms(3) have trained: "isTrained this"
    by (auto simp add: getModelParameters_def isTrained_def split: option.splits)
  define A where "A = \<lparr>rows = rows inputs_grid, cols = rows ?P,
      coeffs = map (\<lambda>x. map2 (\<lambda>p ph. cos (dot p x + ph)) (coeffs ?P) ?ph) (coeffs inputs_grid)\<rparr>"
  define weighted where "weighted = A\<lparr>coeffs := map (\<lambda>r. map2 (*) r ?w) (coeffs A)\<rparr>"
  have act: "cosineActivations model inputs_grid = Inr A"
    using activations_value [OF assms(6) lph] by (simp add: cosineActivations_def A_def)
  have wfA: "wf_MatrixXd A"
    unfolding A_def by (rule activations_wf [OF wfP assms(5,6) lph])
  have cA: "cols A = rows ?P"
    by (simp add: A_def)
  have wc: "weight_cols 0 ?w A = Inr weighted"
    unfolding weighted_def using wfA lw cA by (intro weight_cols_all) simp_all
  have rs: "rowwise_sum weighted = \<lparr>rows = rows A, cols = 1, coeffs = map (\<lambda>r. [dot r ?w]) (coeffs A)\<rparr>"
    unfolding weighted_def by (rule rowwise_sum_weighted)
  have tv: "times_vec A ?w = Inr (rowwise_sum weighted)"
    using lw cA rs by (simp add: times_vec_def)
  have p: "predict h this inputs_grid outputs = Inr (rowwise_sum weighted, [])"
    using trained assms(3) act tv by (simp add: predict_def)
  from saveGridData_saveMatrix [of save_directory generateInputsGrid, OF assms(1,2,3) act wc,
      of overwrite fs]
  obtain r1 fs1 r2 fs2 r3 fs3 r4 fs4 r5 fs5 where
        w1: "saveMatrix save_directory ''n_samples_per_dim.txt'' (SavedXi n_samples_per_dim)
               overwrite fs = Inr (r1, fs1)"
    and w2: "saveMatrix save_directory ''inputs_grid.txt'' (SavedXd inputs_grid)
               overwrite fs1 = Inr (r2, fs2)"
    and w3: "saveMatrix save_directory ''activations_grid.txt'' (SavedXd A)
               overwrite fs2 = Inr (r3, fs3)"
    and w4: "saveMatrix save_directory ''activations_weighted_grid.txt'' (SavedXd weighted)
               overwrite fs3 = Inr (r4, fs4)"
    and w5: "saveMatrix save_directory ''predictions_grid.txt'' (SavedXd (rowwise_sum weighted))
               overwrite fs4 = Inr (r5, fs5)"
    and result: "saveGridData saveMatrix generateInputsGrid h this min_v max_v n_samples_per_dim
                   save_directory overwrite fs = Inr (True, fs5)"
    by blast
  let ?k = "(save_directory, ''predictions_grid.txt'')"
  have "files fs1 ?k = files fs ?k" using saveMatrix_other [OF w1] by simp
  moreover have "files fs2 ?k = files fs1 ?k" using saveMatrix_other [OF w2] by simp
  moreover have "files fs3 ?k = files fs2 ?k" using saveMatrix_other [OF w3] by simp
  moreover have "files fs4 ?k = files fs3 ?k" using saveMatrix_other [OF w4] by simp
  ultimately have "overwrite \<or> files fs4 ?k = None"
    using assms(7) by auto
  then have "files fs5 ?k = Some (SavedXd (rowwise_sum weighted))"
    by (rule saveMatrix_written [OF w5])
  with act wc tv p result show ?thesis
    by (intro exI [of _ A] exI [of _ weighted] exI [of _ fs5]) (simp add: weighted_def)
qed

theorem saveGridData_predictions_are_predict_witness:
  "''out'' \<noteq> [] \<and> unit_grid [0] [1] [2] = Inr two_points \<and>
   getModelParameters trained_heap trained_approximator = Some trained_model \<and>
   model_ok trained_model \<and> wf_MatrixXd two_points \<and>
   cols two_points = cols (cosines_periodes trained_model) \<and>
   files no_files (''out'', ''predictions_grid.txt'') = None \<and>
   predict trained_heap trained_approximator two_points \<lparr>rows = 0, cols = 0, coeffs = []\<rparr>
     = Inr (\<lparr>rows = 2, cols = 1, coeffs = [[5], [3 + cos 1 * 2]]\<rparr>, []) \<and>
   (\<exists>fs'. saveGridData saveMatrix unit_grid trained_heap trained_approximator [0] [1] [2]
             ''out'' False no_files = Inr (True, fs') \<and>
          files fs' (''out'', ''predictions_grid.txt'')
            = Some (SavedXd \<lparr>rows = 2, cols = 1, coeffs = [[5], [3 + cos 1 * 2]]\<rparr>))"
proof -
  have d: "''out'' \<noteq> []" by simp
  have g: "unit_grid [0] [1] [2] = Inr two_points"
    by (simp add: unit_grid_def two_points_def)
  have m: "getModelParameters trained_heap trained_approximator = Some trained_model"
    by (simp add: getModelParameters_def trained_heap_def trained_model_def trained_approximator_def
        trained_model_def)
  have ok: "model_ok trained_model"
    by (simp add: model_ok_def wf_MatrixXd_def trained_model_def)
  have wf: "wf_MatrixXd two_points"
    by (simp add: wf_MatrixXd_def two_points_def)
  have c: "cols two_points = cols (cosines_periodes trained_model)"
    by (simp add: two_points_def trained_model_def)
  have n: "files no_files (''out'', ''predictions_grid.txt'') = None"
    by (simp add: no_files_def)
  have n': "False \<or> files no_files (''out'', ''predictions_grid.txt'') = None"
    using n by simp
  from saveGridData_predictions_are_predict [of "''out''" unit_grid, OF d g m ok wf c n',
      of "\<lparr>rows = 0, cols = 0, coeffs = []\<rparr>"]
  obtain A weighted fs' where
        p: "predict trained_heap trained_approximator two_points
              \<lparr>rows = 0, cols = 0, coeffs = []\<rparr> = Inr (rowwise_sum weighted, [])"
    and s: "saveGridData saveMatrix unit_grid trained_heap trained_approximator [0] [1] [2]
              ''out'' False no_files = Inr (True, fs')"
    and f: "files fs' (''out'', ''predictions_grid.txt'') = Some (SavedXd (rowwise_sum weighted))"
    by blast
  have "predict trained_heap trained_approximator two_points \<lparr>rows = 0, cols = 0, coeffs = []\<rparr>
          = Inr (\<lparr>rows = 2, cols = 1, coeffs = [[5], [3 + cos 1 * 2]]\<rparr>, [])"
    by (simp add: predict_def isTrained_def getModelParameters_def trained_heap_def trained_model_def
        trained_approximator_def cosineActivations_def activations_def times_vec_def
        two_points_def dot_def)
  with p have "rowwise_sum weighted = \<lparr>rows = 2, cols = 1, coeffs = [[5], [3 + cos 1 * 2]]\<rparr>"
    by simp
  with d g m ok wf c n p s f show ?thesis by auto
qed

section \<open>Cloning\<close>

text \<open>
  C9. In a store whose objects lie below the allocation mark, the clone of an approximator
  whose pointers point to objects, trained or not, is a deep, independent copy in the same
  state. Same state: it is trained iff the original is, holds meta-parameters iff the
  original does, reads equal meta-parameters and model parameters, and \<^verbatim>\<open>predict\<close> gives
  the same result on both. Deep: each pointer of the clone points to an object that did
  not exist before the call and is not the original's. The objects that existed are as
  they were, so the original reads and predicts as before. Independent: overwriting or
  destroying an object the clone points to leaves what the original reads and predicts,
  and the other way round; so does installing a new model in either one, and so does
  every call of \<^verbatim>\<open>train\<close> on either one that returns.
\<close>

theorem clone_is_deep_copy:
  assumes "heap_ok h" and "points_ok h this"
  shows "\<exists>copy h'. clone h this = Inr (copy, h') \<and>
           same_view inputs outputs h' copy h this \<and>
           (meta_parameters copy = None \<longleftrightarrow> meta_parameters this = None) \<and>
           (\<forall>a. meta_parameters copy = Some a \<longrightarrow>
              metas h a = None \<and> meta_parameters this \<noteq> Some a) \<and>
           (\<forall>b. model_parameters copy = Some b \<longrightarrow>
              models h b = None \<and> model_parameters this \<noteq> Some b) \<and>
           (\<forall>a. metas h a \<noteq> None \<longrightarrow> metas h' a = metas h a) \<and>
           (\<forall>b. models h b \<noteq> None \<longrightarrow> models h' b = models h b) \<and>
           same_view inputs outputs h' this h this \<and>
           (\<forall>a x. meta_parameters copy = Some a \<longrightarrow>
              same_view inputs outputs (h'\<lparr>metas := (metas h')(a := x)\<rparr>) this h this) \<and>
           (\<forall>b y. model_parameters copy = Some b \<longrightarrow>
              same_view inputs outputs (h'\<lparr>models := (models h')(b := y)\<rparr>) this h this) \<and>
           (\<forall>a x. meta_parameters this = Some a \<longrightarrow>
              same_view inputs outputs (h'\<lparr>metas := (metas h')(a := x)\<rparr>) copy h this) \<and>
           (\<forall>b y. model_parameters this = Some b \<longrightarrow>
              same_view inputs outputs (h'\<lparr>models := (models h')(b := y)\<rparr>) copy h this) \<and>
           (\<forall>model copy' h''. install h' copy model = (copy', h'') \<longrightarrow>
              getModelParameters h'' copy' = Some model \<and>
              same_view inputs outputs h'' this h this) \<and>
           (\<forall>model this' h''. install h' this model = (this', h'') \<longrightarrow>
              getModelParameters h'' this' = Some model \<and>
              same_view inputs outputs h'' copy h this) \<and>
           (\<forall>normal_distribution uniform_real leastSquares expected_input_dim rng X Y
               copy' h'' msgs.
              train normal_distribution uniform_real leastSquares expected_input_dim rng
                h' copy X Y = Inr (copy', h'', msgs) \<longrightarrow>
              same_view inputs outputs h'' this h this) \<and>
           (\<forall>normal_distribution uniform_real leastSquares expected_input_dim rng X Y
               this' h'' msgs.
              train normal_distribution uniform_real leastSquares expected_input_dim rng
                h' this X Y = Inr (this', h'', msgs) \<longrightarrow>
              same_view inputs outputs h'' copy h this)"
proof -
  from clone_state [OF assms] obtain copy h' where
        c: "clone h this = Inr (copy, h')"
    and tr: "isTrained copy = isTrained this"
    and n1: "meta_parameters copy = None \<longleftrightarrow> meta_parameters this = None"
    and me: "getMetaParameters h' copy = getMetaParameters h this"
    and mo: "getModelParameters h' copy = getModelParameters h this"
    and a1: "\<forall>a. meta_parameters copy = Some a \<longrightarrow>
               metas h a = None \<and> meta_parameters this \<noteq> Some a"
    and a2: "\<forall>b. model_parameters copy = Some b \<longrightarrow>
               models h b = None \<and> model_parameters this \<noteq> Some b"
    and k1: "\<forall>a. metas h a \<noteq> None \<longrightarrow> metas h' a = metas h a"
    and k2: "\<forall>b. models h b \<noteq> None \<longrightarrow> models h' b = models h b"
    and s1: "getMetaParameters h' this = getMetaParameters h this"
    and s2: "getModelParameters h' this = getModelParameters h this"
    and ok: "heap_ok h'" and pc: "points_ok h' copy" and pt: "points_ok h' this"
    by (elim exE conjE) (rule that, assumption+)
  have v1: "same_view inputs outputs h' copy h this"
    using tr me mo by (rule same_viewI)
  have v2: "same_view inputs outputs h' this h this"
    using s1 s2 by (intro same_viewI) simp_all
  have w1: "same_view inputs outputs (h'\<lparr>metas := (metas h')(a := x)\<rparr>) this h this"
    if "meta_parameters copy = Some a" for a x
  proof -
    from a1 that have "meta_parameters this \<noteq> Some a" by simp
    then show ?thesis
      using s1 s2
      by (intro same_viewI)
         (simp_all add: getMetaParameters_elsewhere getModelParameters_metas_update)
  qed
  have w2: "same_view inputs outputs (h'\<lparr>models := (models h')(b := y)\<rparr>) this h this"
    if "model_parameters copy = Some b" for b y
  proof -
    from a2 that have "model_parameters this \<noteq> Some b" by simp
    then show ?thesis
      using s1 s2
      by (intro same_viewI)
         (simp_all add: getModelParameters_elsewhere getMetaParameters_models_update)
  qed
  have w3: "same_view inputs outputs (h'\<lparr>metas := (metas h')(a := x)\<rparr>) copy h this"
    if "meta_parameters this = Some a" for a x
  proof -
    from a1 that have "meta_parameters copy \<noteq> Some a" by auto
    then show ?thesis
      using tr me mo
      by (intro same_viewI)
         (simp_all add: getMetaParameters_elsewhere getModelParameters_metas_update)
  qed
  have w4: "same_view inputs outputs (h'\<lparr>models := (models h')(b := y)\<rparr>) copy h this"
    if "model_parameters this = Some b" for b y
  proof -
    from a2 that have "model_parameters copy \<noteq> Some b" by auto
    then show ?thesis
      using tr me mo
      by (intro same_viewI)
         (simp_all add: getModelParameters_elsewhere getMetaParameters_models_update)
  qed
  have apart: "\<forall>b. model_parameters this = Some b \<longrightarrow> model_parameters copy \<noteq> Some b"
    using a2 by auto
  have apart': "\<forall>b. model_parameters copy = Some b \<longrightarrow> model_parameters this \<noteq> Some b"
    using a2 by auto
  have i1: "getModelParameters h'' copy' = Some model \<and> same_view inputs outputs h'' this h this"
    if "install h' copy model = (copy', h'')" for model copy' h''
  proof -
    note io = install_other [OF ok pc pt apart' that]
    have "same_view inputs outputs h'' this h this"
      using io(1) s1 s2 install_metas [OF that, of this] by (intro same_viewI) simp_all
    with io show ?thesis by simp
  qed
  have i2: "getModelParameters h'' this' = Some model \<and> same_view inputs outputs h'' copy h this"
    if "install h' this model = (this', h'')" for model this' h''
  proof -
    note io = install_other [OF ok pt pc apart that]
    have "same_view inputs outputs h'' copy h this"
      using io(1) tr me mo install_metas [OF that, of copy] by (intro same_viewI) simp_all
    with io show ?thesis by simp
  qed
  have t1: "same_view inputs outputs h'' this h this"
    if "train normal_distribution uniform_real leastSquares expected_input_dim rng
          h' copy X Y = Inr (copy', h'', msgs)"
    for normal_distribution uniform_real leastSquares expected_input_dim rng X Y copy' h'' msgs
    using train_changes [OF that] v2 i1 by auto
  have t2: "same_view inputs outputs h'' copy h this"
    if "train normal_distribution uniform_real leastSquares expected_input_dim rng
          h' this X Y = Inr (this', h'', msgs)"
    for normal_distribution uniform_real leastSquares expected_input_dim rng X Y this' h'' msgs
    using train_changes [OF that] v1 i2 by auto
  show ?thesis
    apply (intro exI [of _ copy] exI [of _ h'] conjI)
    using c v1 n1 a1 a2 k1 k2 v2 w1 w2 w3 w4 i1 i2 t1 t2 by blast+
qed


theorem clone_is_deep_copy_witness:
  "heap_ok full_heap \<and> points_ok full_heap full_approximator \<and>
   (\<exists>copy h'. clone full_heap full_approximator = Inr (copy, h') \<and>
      meta_parameters copy = Some 2 \<and> model_parameters copy = Some 3 \<and>
      isTrained copy \<and>
      getMetaParameters h' copy
        = Some \<lparr>number_of_basis_functions = 2, gamma = 1, regularization = 1\<rparr> \<and>
      getModelParameters h' copy = Some trained_model \<and>
      predict h' copy two_points \<lparr>rows = 0, cols = 0, coeffs = []\<rparr>
        = Inr (\<lparr>rows = 2, cols = 1, coeffs = [[5], [3 + cos 1 * 2]]\<rparr>, []) \<and>
      same_view two_points \<lparr>rows = 0, cols = 0, coeffs = []\<rparr>
        (h'\<lparr>metas := (metas h')(2 := None)\<rparr>) full_approximator full_heap full_approximator \<and>
      same_view two_points \<lparr>rows = 0, cols = 0, coeffs = []\<rparr>
        (h'\<lparr>models := (models h')(3 := None)\<rparr>) full_approximator full_heap full_approximator \<and>
      same_view two_points \<lparr>rows = 0, cols = 0, coeffs = []\<rparr>
        (h'\<lparr>models := (models h')(1 := None)\<rparr>) copy full_heap full_approximator) \<and>
   heap_ok untrained_heap \<and> points_ok untrained_heap untrained_approximator \<and>
   (\<exists>copy h'. clone untrained_heap untrained_approximator = Inr (copy, h') \<and>
      meta_parameters copy = Some 1 \<and> model_parameters copy = None \<and>
      \<not> isTrained copy \<and>
      getMetaParameters h' copy
        = Some \<lparr>number_of_basis_functions = 2, gamma = 1, regularization = 1\<rparr> \<and>
      same_view two_points \<lparr>rows = 0, cols = 0, coeffs = []\<rparr>
        (h'\<lparr>metas := (metas h')(1 := None)\<rparr>) untrained_approximator
        untrained_heap untrained_approximator \<and>
      same_view two_points \<lparr>rows = 0, cols = 0, coeffs = []\<rparr>
        (h'\<lparr>metas := (metas h')(0 := None)\<rparr>) copy untrained_heap untrained_approximator)"
proof -
  let ?E = "\<lparr>rows = 0, cols = 0, coeffs = []\<rparr>"
  let ?meta = "\<lparr>number_of_basis_functions = 2, gamma = 1, regularization = 1\<rparr>"
  have ok: "heap_ok full_heap"
    by (simp add: heap_ok_def full_heap_def)
  have pt: "points_ok full_heap full_approximator"
    by (simp add: points_ok_def full_heap_def full_approximator_def)
  have t: "isTrained full_approximator"
    by (simp add: isTrained_def full_approximator_def)
  have me: "getMetaParameters full_heap full_approximator = Some ?meta"
    by (simp add: getMetaParameters_def full_heap_def full_approximator_def)
  have mo: "getModelParameters full_heap full_approximator = Some trained_model"
    by (simp add: getModelParameters_def full_heap_def full_approximator_def)
  have p: "predict full_heap full_approximator two_points ?E
          = Inr (\<lparr>rows = 2, cols = 1, coeffs = [[5], [3 + cos 1 * 2]]\<rparr>, [])"
    by (simp add: predict_def isTrained_def getModelParameters_def full_heap_def
        trained_model_def full_approximator_def cosineActivations_def activations_def
        times_vec_def two_points_def dot_def)
  have ptr: "\<exists>h'. clone full_heap full_approximator
                 = Inr (\<lparr>meta_parameters = Some 2, model_parameters = Some 3\<rparr>, h')"
    by (simp add: clone_def new_FunctionApproximatorRRRFF_def clone_MetaParameters_def
        clone_ModelParameters_def full_heap_def full_approximator_def)
  from clone_is_deep_copy [OF ok pt, of two_points ?E]
  obtain copy h' where c: "clone full_heap full_approximator = Inr (copy, h')"
    and v: "same_view two_points ?E h' copy full_heap full_approximator"
    and w1: "\<forall>a x. meta_parameters copy = Some a \<longrightarrow>
               same_view two_points ?E (h'\<lparr>metas := (metas h')(a := x)\<rparr>)
                 full_approximator full_heap full_approximator"
    and w2: "\<forall>b y. model_parameters copy = Some b \<longrightarrow>
               same_view two_points ?E (h'\<lparr>models := (models h')(b := y)\<rparr>)
                 full_approximator full_heap full_approximator"
    and w4: "\<forall>b y. model_parameters full_approximator = Some b \<longrightarrow>
               same_view two_points ?E (h'\<lparr>models := (models h')(b := y)\<rparr>)
                 copy full_heap full_approximator"
    by (elim exE conjE) (rule that, assumption+)
  from ptr c have cp: "meta_parameters copy = Some 2" "model_parameters copy = Some 3"
    by auto
  have o1: "model_parameters full_approximator = Some 1"
    by (simp add: full_approximator_def)
  have first: "\<exists>copy h'. clone full_heap full_approximator = Inr (copy, h') \<and>
      meta_parameters copy = Some 2 \<and> model_parameters copy = Some 3 \<and>
      isTrained copy \<and> getMetaParameters h' copy = Some ?meta \<and>
      getModelParameters h' copy = Some trained_model \<and>
      predict h' copy two_points ?E
        = Inr (\<lparr>rows = 2, cols = 1, coeffs = [[5], [3 + cos 1 * 2]]\<rparr>, []) \<and>
      same_view two_points ?E
        (h'\<lparr>metas := (metas h')(2 := None)\<rparr>) full_approximator full_heap full_approximator \<and>
      same_view two_points ?E
        (h'\<lparr>models := (models h')(3 := None)\<rparr>) full_approximator full_heap full_approximator \<and>
      same_view two_points ?E
        (h'\<lparr>models := (models h')(1 := None)\<rparr>) copy full_heap full_approximator"
    using c cp v w1 w2 w4 o1 t me mo p
    by (intro exI [of _ copy] exI [of _ h']) (simp add: same_view_def)
  have ok': "heap_ok untrained_heap"
    by (simp add: heap_ok_def untrained_heap_def)
  have pt': "points_ok untrained_heap untrained_approximator"
    by (simp add: points_ok_def untrained_heap_def untrained_approximator_def)
  have u: "\<not> isTrained untrained_approximator"
    by (simp add: isTrained_def untrained_approximator_def)
  have me': "getMetaParameters untrained_heap untrained_approximator = Some ?meta"
    by (simp add: getMetaParameters_def untrained_heap_def untrained_approximator_def)
  have ptr': "\<exists>h'. clone untrained_heap untrained_approximator
                 = Inr (\<lparr>meta_parameters = Some 1, model_parameters = None\<rparr>, h')"
    by (simp add: clone_def new_FunctionApproximatorRRRFF_def clone_MetaParameters_def
        clone_ModelParameters_def untrained_heap_def untrained_approximator_def)
  from clone_is_deep_copy [OF ok' pt', of two_points ?E]
  obtain copy' h'' where c': "clone untrained_heap untrained_approximator = Inr (copy', h'')"
    and v': "same_view two_points ?E h'' copy' untrained_heap untrained_approximator"
    and w1': "\<forall>a x. meta_parameters copy' = Some a \<longrightarrow>
               same_view two_points ?E (h''\<lparr>metas := (metas h'')(a := x)\<rparr>)
                 untrained_approximator untrained_heap untrained_approximator"
    and w3': "\<forall>a x. meta_parameters untrained_approximator = Some a \<longrightarrow>
               same_view two_points ?E (h''\<lparr>metas := (metas h'')(a := x)\<rparr>)
                 copy' untrained_heap untrained_approximator"
    by (elim exE conjE) (rule that, assumption+)
  from ptr' c' have cp': "meta_parameters copy' = Some 1" "model_parameters copy' = None"
    by auto
  have o0: "meta_parameters untrained_approximator = Some 0"
    by (simp add: untrained_approximator_def)
  have second: "\<exists>copy h'. clone untrained_heap untrained_approximator = Inr (copy, h') \<and>
      meta_parameters copy = Some 1 \<and> model_parameters copy = None \<and>
      \<not> isTrained copy \<and> getMetaParameters h' copy = Some ?meta \<and>
      same_view two_points ?E
        (h'\<lparr>metas := (metas h')(1 := None)\<rparr>) untrained_approximator
        untrained_heap untrained_approximator \<and>
      same_view two_points ?E
        (h'\<lparr>metas := (metas h')(0 := None)\<rparr>) copy untrained_heap untrained_approximator"
    using c' cp' v' w1' w3' o0 u me'
    by (intro exI [of _ copy'] exI [of _ h'']) (simp add: same_view_def)
  from ok pt first ok' pt' second show ?thesis by blast
qed


end
